theory Spec2Isabelle
  imports Main "HOL-Library.Sublist"
begin

section \<open>Values, configuration and collaborators\<close>

text \<open>
  The handlers of \<^verbatim>\<open>handlers/handlers.go\<close>, embedded as functions on an explicit handler
  state. A Go \<^verbatim>\<open>error\<close> is represented by its text; a result \<^verbatim>\<open>(v, err)\<close> is a sum
  with \<open>Inl\<close> for the error.
\<close>

type_synonym error = string

text \<open>
  An \<^verbatim>\<open>interface{}\<close> value as the handlers meet it: what the session holds and what
  a decoded token carries as custom claims. \<open>INil\<close> is the nil interface, which is also
  what a Go map returns for a key it does not hold. A number decoded from JSON is a
  finite \<^verbatim>\<open>float64\<close>, given by its significand and exponent.
\<close>

datatype float64 = Float64 int int

datatype iface =
    INil
  | IString string
  | IInt int
  | IBool bool
  | IFloat64 float64
  | ISlice "iface list"
  | IMap "(string \<times> iface) list"

text \<open>\<^verbatim>\<open>structs.User\<close>, \<^verbatim>\<open>structs.PTokens\<close> and \<^verbatim>\<open>jwtmanager.VouchClaims\<close>: the fields
  the handlers read. A Go map that is ranged over is an association list; the order of the
  list stands for the order the runtime happens to pick.\<close>

record User =
  Username :: string
  Email :: string
  TeamMemberships :: "string list"

record PTokens =
  PAccessToken :: string
  PIdToken :: string

type_synonym CustomClaims = "(string \<times> iface) list"

record VouchClaims =
  vcUsername :: string
  vcCustomClaims :: CustomClaims
  vcPAccessToken :: string
  vcPIdToken :: string

datatype AuthCodeOption = SetAuthURLParam string string

text \<open>The configuration globals of package \<^verbatim>\<open>cfg\<close> that the handlers only read.\<close>

record Cfg =
  AllowAllUsers :: bool
  PublicAccess :: bool
  Testing :: bool
  WhiteList :: "string list"
  TeamWhiteList :: "string list"
  Domains :: "string list"
  Headers_JWT :: string
  Headers_User :: string
  Headers_Success :: string
  Headers_QueryString :: string
  Headers_AccessToken :: string
  Headers_IDToken :: string
  Headers_ClaimsCleaned :: "(string \<times> string) list"
  Session_Name :: string
  Branding_CcName :: string
  GenOAuth_Provider :: string
  GenOAuth_RedirectURLs :: "string list"
  Providers_IndieAuth :: string
  Providers_ADFS :: string
  OAuthopts :: "AuthCodeOption option"

text \<open>The request: \<^verbatim>\<open>r.Host\<close>, \<^verbatim>\<open>r.Header.Get\<close>, \<^verbatim>\<open>r.URL.Query().Get\<close> and the cookies
  it carries.\<close>

record Request =
  Host :: string
  Header_Get :: "string \<Rightarrow> string"
  Query_Get :: "string \<Rightarrow> string"
  Cookies :: "(string \<times> string) list"

record Index =
  Msg :: string
  Index_TestURLs :: "string list"
  Index_Testing :: bool

record AuthError =
  Error :: string
  JWT :: string

text \<open>
  The collaborators whose code is outside \<^verbatim>\<open>handlers.go\<close>, as the handler calls them:
  packages \<^verbatim>\<open>cookie\<close>, \<^verbatim>\<open>jwtmanager\<close>, \<^verbatim>\<open>domains\<close>, the provider, the session store,
  \<^verbatim>\<open>securerandom\<close>, \<^verbatim>\<open>oauth2\<close>, the index template and \<^verbatim>\<open>fmt\<close> on values that are not
  strings. \<open>'t\<close> is the parsed token (\<^verbatim>\<open>*jwt.Token\<close>).
\<close>

record 't Env =
  cookie_Cookie :: "Request \<Rightarrow> error + string"
  ParseTokenString :: "string \<Rightarrow> error + 't"
  PTokenClaims :: "'t \<Rightarrow> error + VouchClaims"
  SiteInClaims :: "string \<Rightarrow> VouchClaims \<Rightarrow> bool"
  CreateUserTokenString :: "User \<Rightarrow> CustomClaims \<Rightarrow> PTokens \<Rightarrow> string"
  IsUnderManagement :: "string \<Rightarrow> bool"
  domains_Matches :: "string \<Rightarrow> string"
  provider_GetUserInfo :: "Request \<Rightarrow> error + (User \<times> CustomClaims \<times> PTokens)"
  sessstore_Get :: "Request \<Rightarrow> string \<Rightarrow> (string \<Rightarrow> iface) \<times> error option"
  session_Save :: "(string \<Rightarrow> iface) \<Rightarrow> error option"
  URLBase64InBytes :: "nat \<Rightarrow> error + string"
  AuthCodeURL :: "string \<Rightarrow> string \<Rightarrow> AuthCodeOption option list \<Rightarrow> string"
  indexTemplate_Execute :: "Index \<Rightarrow> string \<times> error option"
  fmt_v :: "iface \<Rightarrow> string"
  fmt_s :: "iface \<Rightarrow> string"

section \<open>The authorization policy\<close>

text \<open>\<^verbatim>\<open>%s\<close> of a \<^verbatim>\<open>[]string\<close>: the elements between brackets, separated by spaces.\<close>

fun Join :: "string list \<Rightarrow> string \<Rightarrow> string" where
  "Join [] sep = []"
| "Join [x] sep = x"
| "Join (x # y # ys) sep = x @ sep @ Join (y # ys) sep"

definition fmt_strings :: "string list \<Rightarrow> string" where
  "fmt_strings xs = ''['' @ Join xs '' '' @ '']''"

text \<open>The loop over \<^verbatim>\<open>cfg.Cfg.WhiteList\<close> (lines 420-425).\<close>

fun inWhiteList :: "string \<Rightarrow> string list \<Rightarrow> bool" where
  "inWhiteList u [] = False"
| "inWhiteList u (wl # wls) = (if u = wl then True else inWhiteList u wls)"

text \<open>The nested loops over the team memberships and \<^verbatim>\<open>cfg.Cfg.TeamWhiteList\<close>
  (lines 430-437).\<close>

fun teamsInWhiteList :: "string list \<Rightarrow> string list \<Rightarrow> bool" where
  "teamsInWhiteList [] wls = False"
| "teamsInWhiteList (team # teams) wls =
     (if inWhiteList team wls then True else teamsInWhiteList teams wls)"

definition VerifyUser :: "Cfg \<Rightarrow> 't Env \<Rightarrow> User \<Rightarrow> bool \<times> error option" where
  "VerifyUser cfg env user =
     (if AllowAllUsers cfg then (True, None)
      else if length (WhiteList cfg) \<noteq> 0 then
        (if inWhiteList (Username user) (WhiteList cfg) then (True, None)
         else (False, Some (''VerifyUser: user.Username not found in WhiteList: '' @ Username user)))
      else if length (TeamWhiteList cfg) \<noteq> 0 then
        (if teamsInWhiteList (TeamMemberships user) (TeamWhiteList cfg) then (True, None)
         else (False, Some (''VerifyUser: user.TeamMemberships '' @ fmt_strings (TeamMemberships user)
                 @ '' not found in TeamWhiteList: '' @ fmt_strings (TeamWhiteList cfg)
                 @ '' for user '' @ Username user)))
      else if length (Domains cfg) \<noteq> 0 then
        (if IsUnderManagement env (Email user) then (True, None)
         else (False, Some (''VerifyUser: Email '' @ Email user @ '' is not within a ''
                 @ Branding_CcName cfg @ '' managed domain'')))
      else (True, None))"

section \<open>The handler state\<close>

text \<open>
  What a handler leaves behind: the response (\<open>status\<close> is the code handed to
  \<^verbatim>\<open>WriteHeader\<close>, \<open>None\<close> while nothing has been written; \<open>location\<close> is the target handed
  to \<^verbatim>\<open>http.Redirect\<close>), the calls made to package \<^verbatim>\<open>cookie\<close>, the values of the session the
  handler holds and the values last saved, the calls made to the provider, the policy and
  the token manager, the lines logged at warning and error level, and the two
  configuration globals the handlers write (\<^verbatim>\<open>cfg.Cfg.TestURLs\<close> and
  \<^verbatim>\<open>cfg.OAuthClient.RedirectURL\<close>). \<open>panicked\<close> records a failed type assertion, after
  which the handler does nothing more. Debug and info logging is left out.
\<close>

datatype cookie_op = ClearCookie | SetCookie string

datatype call =
    GetUserInfoCall
  | VerifyUserCall User
  | CreateUserTokenStringCall User CustomClaims PTokens

datatype log_line = LogError string | LogWarn string

record HState =
  status :: "nat option"
  header :: "(string \<times> string) list"
  body :: string
  location :: "string option"
  cookieOps :: "cookie_op list"
  sessValues :: "string \<Rightarrow> iface"
  saved :: "(string \<Rightarrow> iface) option"
  calls :: "call list"
  logs :: "log_line list"
  TestURLs :: "string list"
  OAuthClient_RedirectURL :: string
  panicked :: bool

text \<open>The state a request starts from: nothing written, an empty session in hand, and the
  two globals as the process holds them.\<close>

definition start :: "string list \<Rightarrow> string \<Rightarrow> HState" where
  "start urls redirectURL =
     \<lparr> status = None, header = [], body = [], location = None, cookieOps = [],
       sessValues = (\<lambda>k. INil), saved = None, calls = [], logs = [],
       TestURLs = urls, OAuthClient_RedirectURL = redirectURL, panicked = False \<rparr>"

text \<open>The status the client receives: 200 when the handler returned without calling
  \<^verbatim>\<open>WriteHeader\<close>, none when it panicked before writing.\<close>

definition finalStatus :: "HState \<Rightarrow> nat option" where
  "finalStatus s =
     (case status s of
        None \<Rightarrow> (if panicked s then None else Some 200)
      | Some c \<Rightarrow> Some c)"

subsection \<open>The response writer\<close>

text \<open>The header map is sent with the first \<^verbatim>\<open>WriteHeader\<close> or \<^verbatim>\<open>Write\<close>; a change made
  after that does not reach the client. Keys are taken as written.\<close>

definition Header_Add :: "string \<Rightarrow> string \<Rightarrow> HState \<Rightarrow> HState" where
  "Header_Add k v s = (if status s = None then s\<lparr>header := header s @ [(k, v)]\<rparr> else s)"

definition Header_Del :: "string \<Rightarrow> HState \<Rightarrow> HState" where
  "Header_Del k s =
     (if status s = None then s\<lparr>header := filter (\<lambda>kv. fst kv \<noteq> k) (header s)\<rparr> else s)"

definition Header_Set :: "string \<Rightarrow> string \<Rightarrow> HState \<Rightarrow> HState" where
  "Header_Set k v s = Header_Add k v (Header_Del k s)"

definition WriteHeader :: "nat \<Rightarrow> HState \<Rightarrow> HState" where
  "WriteHeader code s = (if status s = None then s\<lparr>status := Some code\<rparr> else s)"

definition Write :: "string \<Rightarrow> HState \<Rightarrow> HState" where
  "Write bytes s = (let s1 = WriteHeader 200 s in s1\<lparr>body := body s1 @ bytes\<rparr>)"

text \<open>\<^verbatim>\<open>http.Error\<close>: plain-text headers, the status, the message and a newline.\<close>

definition http_Error :: "string \<Rightarrow> nat \<Rightarrow> HState \<Rightarrow> HState" where
  "http_Error msg code s =
     Write (msg @ [CHR 0x0A])
       (WriteHeader code
         (Header_Set ''X-Content-Type-Options'' ''nosniff''
           (Header_Set ''Content-Type'' ''text/plain; charset=utf-8''
             (Header_Del ''Content-Length'' s))))"

text \<open>\<^verbatim>\<open>http.Redirect\<close>: the target as the handler gave it and the status. The escaping of
  the target and the short HTML body of the standard library are not modelled.\<close>

definition http_Redirect :: "string \<Rightarrow> nat \<Rightarrow> HState \<Rightarrow> HState" where
  "http_Redirect rURL code s =
     (if status s = None then WriteHeader code (s\<lparr>location := Some rURL\<rparr>) else s)"

definition log_Error :: "string \<Rightarrow> HState \<Rightarrow> HState" where
  "log_Error msg s = s\<lparr>logs := logs s @ [LogError msg]\<rparr>"

definition log_Warn :: "string \<Rightarrow> HState \<Rightarrow> HState" where
  "log_Warn msg s = s\<lparr>logs := logs s @ [LogWarn msg]\<rparr>"

text \<open>What \<^verbatim>\<open>log.Error(err)\<close> and \<^verbatim>\<open>%s\<close> print for an error that may be nil.\<close>

definition fmt_error :: "error option \<Rightarrow> string" where
  "fmt_error err = (case err of None \<Rightarrow> ''<nil>'' | Some e \<Rightarrow> e)"

definition fmt_error_s :: "error option \<Rightarrow> string" where
  "fmt_error_s err = (case err of None \<Rightarrow> ''%!s(<nil>)'' | Some e \<Rightarrow> e)"

definition cookie_ClearCookie :: "HState \<Rightarrow> HState" where
  "cookie_ClearCookie s = s\<lparr>cookieOps := cookieOps s @ [ClearCookie]\<rparr>"

definition cookie_SetCookie :: "string \<Rightarrow> HState \<Rightarrow> HState" where
  "cookie_SetCookie val s = s\<lparr>cookieOps := cookieOps s @ [SetCookie val]\<rparr>"

subsection \<open>Small handlers\<close>

definition renderIndex :: "'t Env \<Rightarrow> Cfg \<Rightarrow> string \<Rightarrow> HState \<Rightarrow> HState" where
  "renderIndex env cfg msg s =
     (case indexTemplate_Execute env
             \<lparr> Msg = msg, Index_TestURLs = TestURLs s, Index_Testing = Testing cfg \<rparr> of
        (out, None) \<Rightarrow> Write out s
      | (out, Some err) \<Rightarrow> log_Error err (Write out s))"

definition error401 :: "AuthError \<Rightarrow> HState \<Rightarrow> HState" where
  "error401 ae s = http_Error (Error ae) 401 (cookie_ClearCookie (log_Error (Error ae) s))"

definition redirect302 :: "'t Env \<Rightarrow> Cfg \<Rightarrow> string \<Rightarrow> HState \<Rightarrow> HState" where
  "redirect302 env cfg rURL s =
     (if Testing cfg then
        renderIndex env cfg (''302 redirect to: '' @ rURL) (s\<lparr>TestURLs := TestURLs s @ [rURL]\<rparr>)
      else http_Redirect rURL 302 s)"

definition ok200 :: "HState \<Rightarrow> HState" where
  "ok200 s = Write (''200 OK'' @ [CHR 0x0A]) s"

section \<open>The request validator\<close>

text \<open>\<^verbatim>\<open>strings.SplitN(s, sep, 2)\<close> for a separator of one character: the text before the
  first separator and the text after it, or \<open>s\<close> alone when it holds none.\<close>

definition SplitN_2 :: "string \<Rightarrow> char \<Rightarrow> string list" where
  "SplitN_2 s sep =
     (if sep \<in> set s then [takeWhile (\<lambda>c. c \<noteq> sep) s, tl (dropWhile (\<lambda>c. c \<noteq> sep) s)]
      else [s])"

definition FindJWT :: "'t Env \<Rightarrow> Cfg \<Rightarrow> Request \<Rightarrow> string" where
  "FindJWT env cfg r =
     (case cookie_Cookie env r of
        Inr jwt \<Rightarrow> jwt
      | Inl err \<Rightarrow>
          (let jwt = Header_Get r (Headers_JWT cfg) in
           if jwt \<noteq> [] then jwt
           else
             (let auth = Header_Get r ''Authorization'' in
              if auth \<noteq> [] \<and> length (SplitN_2 auth CHR '' '') = 2
              then SplitN_2 auth CHR '' '' ! 1
              else
                (let jwt = Query_Get r (Headers_QueryString cfg) in
                 if jwt \<noteq> [] then jwt else []))))"

definition ClaimsFromJWT :: "'t Env \<Rightarrow> string \<Rightarrow> HState \<Rightarrow> (error + VouchClaims) \<times> HState" where
  "ClaimsFromJWT env jwt s =
     (case ParseTokenString env jwt of
        Inl err \<Rightarrow> (Inl err, log_Error ''jwtParsed returned error, clearing cookie'' s)
      | Inr jwtParsed \<Rightarrow>
          (case PTokenClaims env jwtParsed of
             Inl err \<Rightarrow> (Inl err, s)
           | Inr claims \<Rightarrow> (Inr claims, s)))"

text \<open>\<^verbatim>\<open>fmt.Sprint(v)\<close> and the verb \<^verbatim>\<open>%s\<close> on one value: a string prints as it is; what
  \<^verbatim>\<open>fmt\<close> prints for any other value is the collaborator's.\<close>

definition Sprint :: "'t Env \<Rightarrow> iface \<Rightarrow> string" where
  "Sprint env v = (case v of IString str \<Rightarrow> str | _ \<Rightarrow> fmt_v env v)"

definition Sprintf_s :: "'t Env \<Rightarrow> iface \<Rightarrow> string" where
  "Sprintf_s env v = (case v of IString str \<Rightarrow> str | _ \<Rightarrow> fmt_s env v)"

text \<open>\<^verbatim>\<open>reflect.TypeOf(val).Kind() == reflect.String\<close> at line 248, where \<open>val\<close> is the Go
  string that \<^verbatim>\<open>fmt.Sprint\<close> returned: the kind of a string is \<^verbatim>\<open>String\<close>.\<close>

definition Kind_is_String :: "string \<Rightarrow> bool" where
  "Kind_is_String val = True"

text \<open>The body of the two loops for one custom claim \<open>(k, v)\<close> and one configured pair
  \<open>(claim, header)\<close> (lines 225-256).\<close>

definition claimHeader :: "'t Env \<Rightarrow> string \<times> iface \<Rightarrow> string \<times> string \<Rightarrow> HState \<Rightarrow> HState" where
  "claimHeader env kv ch s =
     (if fst ch = fst kv then
        (case snd kv of
           ISlice val \<Rightarrow>
             Header_Add (snd ch)
               (Join (map (\<lambda>v. [CHR 0x22] @ Sprintf_s env v @ [CHR 0x22]) val) '','') s
         | v \<Rightarrow>
             (let val = Sprint env v in
              if Kind_is_String val then Header_Add (snd ch) val s
              else log_Error (''Couldn't parse header type for '' @ fst kv @ '' '' @ fmt_v env v
                     @ ''.  Please submit an issue.'') s))
      else s)"

text \<open>Lines 218-259: for every custom claim, every configured pair.\<close>

definition projectClaims :: "'t Env \<Rightarrow> Cfg \<Rightarrow> VouchClaims \<Rightarrow> HState \<Rightarrow> HState" where
  "projectClaims env cfg claims s =
     (if length (Headers_ClaimsCleaned cfg) > 0 then
        fold (\<lambda>kv. fold (claimHeader env kv) (Headers_ClaimsCleaned cfg)) (vcCustomClaims claims) s
      else s)"

text \<open>Lines 261-286: the identity and success headers, the provider tokens, the body.\<close>

definition validated :: "'t Env \<Rightarrow> Cfg \<Rightarrow> VouchClaims \<Rightarrow> HState \<Rightarrow> HState" where
  "validated env cfg claims s =
     (let s1 = Header_Add (Headers_User cfg) (vcUsername claims) s;
          s2 = Header_Add (Headers_Success cfg) ''true'' s1;
          s3 = (if Headers_AccessToken cfg \<noteq> [] \<and> vcPAccessToken claims \<noteq> []
                then Header_Add (Headers_AccessToken cfg) (vcPAccessToken claims) s2 else s2);
          s4 = (if Headers_IDToken cfg \<noteq> [] \<and> vcPIdToken claims \<noteq> []
                then Header_Add (Headers_IDToken cfg) (vcPIdToken claims) s3 else s3)
      in if Testing cfg then renderIndex env cfg (''user authorized '' @ vcUsername claims) s4
         else ok200 s4)"

definition ValidateRequestHandler :: "'t Env \<Rightarrow> Cfg \<Rightarrow> Request \<Rightarrow> HState \<Rightarrow> HState" where
  "ValidateRequestHandler env cfg r s =
     (let jwt = FindJWT env cfg r in
      if jwt = [] then
        (if PublicAccess cfg then ok200 (Header_Add (Headers_User cfg) [] s)
         else error401 \<lparr> Error = ''no jwt found in request'', JWT = [] \<rparr> s)
      else
        (case ClaimsFromJWT env jwt s of
           (Inl err, s1) \<Rightarrow>
             (if \<not> PublicAccess cfg then error401 \<lparr> Error = err, JWT = jwt \<rparr> s1
              else Header_Add (Headers_User cfg) [] s1)
         | (Inr claims, s1) \<Rightarrow>
             if vcUsername claims = [] then
               (if \<not> PublicAccess cfg
                then error401 \<lparr> Error = ''no Username found in jwt'', JWT = jwt \<rparr> s1
                else Header_Add (Headers_User cfg) [] s1)
             else if \<not> AllowAllUsers cfg \<and> \<not> SiteInClaims env (Host r) claims then
               (if \<not> PublicAccess cfg
                then error401 \<lparr> Error = ''http header 'Host: '' @ Host r
                       @ ''' not authorized for configured `vouch.domains` (is Host being sent properly?)'',
                       JWT = jwt \<rparr> s1
                else Header_Add (Headers_User cfg) [] s1)
             else validated env cfg claims (projectClaims env cfg claims s1)))"

section \<open>Login and callback\<close>

definition base64Bytes :: nat where
  "base64Bytes = 32"

text \<open>The characters \<^verbatim>\<open>regExJustAlphaNum\<close> leaves in place.\<close>

definition isAlphaNum :: "char \<Rightarrow> bool" where
  "isAlphaNum c =
     (let n = (of_char c :: nat) in
      (97 \<le> n \<and> n \<le> 122) \<or> (65 \<le> n \<and> n \<le> 90) \<or> (48 \<le> n \<and> n \<le> 57))"

definition generateStateNonce :: "'t Env \<Rightarrow> string \<times> error option" where
  "generateStateNonce env =
     (case URLBase64InBytes env base64Bytes of
        Inl err \<Rightarrow> ([], Some err)
      | Inr st \<Rightarrow> (filter isAlphaNum st, None))"

definition strings_Contains :: "string \<Rightarrow> string \<Rightarrow> bool" where
  "strings_Contains s substr = sublist substr s"

text \<open>\<open>loginURL\<close> returns the URL and the state, whose \<open>OAuthClient_RedirectURL\<close> the loop
  over the configured redirect URLs may have set.\<close>

definition loginURL :: "'t Env \<Rightarrow> Cfg \<Rightarrow> Request \<Rightarrow> string \<Rightarrow> HState \<Rightarrow> string \<times> HState" where
  "loginURL env cfg r st s =
     (if GenOAuth_Provider cfg = Providers_IndieAuth cfg then
        (AuthCodeURL env (OAuthClient_RedirectURL s) st
           [Some (SetAuthURLParam ''response_type'' ''id'')], s)
      else if GenOAuth_Provider cfg = Providers_ADFS cfg then
        (AuthCodeURL env (OAuthClient_RedirectURL s) st [OAuthopts cfg], s)
      else
        (let domain = domains_Matches env (Host r);
             s1 = (case find (\<lambda>v. strings_Contains v domain) (GenOAuth_RedirectURLs cfg) of
                     Some v \<Rightarrow> s\<lparr>OAuthClient_RedirectURL := v\<rparr>
                   | None \<Rightarrow> s)
         in if OAuthopts cfg \<noteq> None
            then (AuthCodeURL env (OAuthClient_RedirectURL s1) st [OAuthopts cfg], s1)
            else (AuthCodeURL env (OAuthClient_RedirectURL s1) st [], s1)))"

text \<open>\<^verbatim>\<open>session.Save\<close>: the values in hand become the saved ones unless the store reports
  an error, which is logged.\<close>

definition Save :: "'t Env \<Rightarrow> HState \<Rightarrow> HState" where
  "Save env s =
     (case session_Save env (sessValues s) of
        None \<Rightarrow> s\<lparr>saved := Some (sessValues s)\<rparr>
      | Some err \<Rightarrow> log_Error err s)"

definition Values_set :: "string \<Rightarrow> iface \<Rightarrow> HState \<Rightarrow> HState" where
  "Values_set k v s = s\<lparr>sessValues := (sessValues s)(k := v)\<rparr>"

text \<open>Lines 381-397 of \<open>LoginHandler\<close>, from the increment of the failure count on.\<close>

definition loginCounted ::
  "'t Env \<Rightarrow> Cfg \<Rightarrow> Request \<Rightarrow> string \<Rightarrow> string \<Rightarrow> int \<Rightarrow> HState \<Rightarrow> HState" where
  "loginCounted env cfg r st requestedURL failcount0 s =
     (let failcount = failcount0 + 1;
          s1 = Save env (Values_set requestedURL (IInt failcount) s)
      in if failcount > 2 then
           renderIndex env cfg (''/login too many redirects for '' @ requestedURL @ '' - ''
             @ Query_Get r ''error'') s1
         else
           (case loginURL env cfg r st s1 of (lURL, s2) \<Rightarrow> redirect302 env cfg lURL s2))"

definition LoginHandler :: "'t Env \<Rightarrow> Cfg \<Rightarrow> Request \<Rightarrow> HState \<Rightarrow> HState" where
  "LoginHandler env cfg r s =
     (let s1 = cookie_ClearCookie s;
          got = sessstore_Get env r (Session_Name cfg);
          s2 = (case snd got of
                  None \<Rightarrow> s1
                | Some err \<Rightarrow>
                    log_Warn (''couldn't find existing encrypted secure cookie with name ''
                      @ Session_Name cfg @ '': '' @ err @ '' (probably fine)'') s1);
          s3 = s2\<lparr>sessValues := fst got\<rparr>;
          nonce = generateStateNonce env;
          s4 = (case snd nonce of None \<Rightarrow> s3 | Some err \<Rightarrow> log_Error err s3);
          s5 = Values_set ''state'' (IString (fst nonce)) s4;
          requestedURL = Query_Get r ''url''
      in if requestedURL = [] then
           log_Error ''no destination URL requested''
             (renderIndex env cfg ''/login no destination URL requested'' s5)
         else
           (let s6 = Values_set ''requestedURL'' (IString requestedURL) s5 in
            case sessValues s6 requestedURL of
              INil \<Rightarrow> loginCounted env cfg r (fst nonce) requestedURL 0 s6
            | IInt failcount \<Rightarrow> loginCounted env cfg r (fst nonce) requestedURL failcount s6
            | _ \<Rightarrow> s6\<lparr>panicked := True\<rparr>))"

definition getUserInfo ::
  "'t Env \<Rightarrow> Request \<Rightarrow> HState \<Rightarrow> (error + (User \<times> CustomClaims \<times> PTokens)) \<times> HState" where
  "getUserInfo env r s = (provider_GetUserInfo env r, s\<lparr>calls := calls s @ [GetUserInfoCall]\<rparr>)"

text \<open>Lines 502-513: the policy denied.\<close>

definition denied :: "'t Env \<Rightarrow> Cfg \<Rightarrow> error option \<Rightarrow> string \<Rightarrow> HState \<Rightarrow> HState" where
  "denied env cfg err requestedURL s =
     (let s1 = log_Error (fmt_error err) s in
      if requestedURL \<noteq> [] then
        renderIndex env cfg (''/auth User is not authorized. '' @ fmt_error_s err
          @ '' <a href='' @ [CHR 0x22] @ requestedURL @ [CHR 0x22] @ ''>Please try again</a>.'') s1
      else
        renderIndex env cfg (''/auth User is not authorized. '' @ fmt_error_s err
          @ '' Please try again.'') s1)"

text \<open>Lines 515-536: the policy permitted.\<close>

definition authorized ::
  "'t Env \<Rightarrow> Cfg \<Rightarrow> User \<Rightarrow> CustomClaims \<Rightarrow> PTokens \<Rightarrow> string \<Rightarrow> HState \<Rightarrow> HState" where
  "authorized env cfg user customClaims ptokens requestedURL s =
     (let tokenstring = CreateUserTokenString env user customClaims ptokens;
          s1 = s\<lparr>calls := calls s @ [CreateUserTokenStringCall user customClaims ptokens]\<rparr>;
          s2 = cookie_SetCookie tokenstring s1
      in if requestedURL \<noteq> [] then
           redirect302 env cfg requestedURL
             (Save env (Values_set requestedURL (IInt 0)
                (Values_set ''requestedURL'' (IString []) s2)))
         else renderIndex env cfg (''/auth '' @ tokenstring) s2)"

definition CallbackHandler :: "'t Env \<Rightarrow> Cfg \<Rightarrow> Request \<Rightarrow> HState \<Rightarrow> HState" where
  "CallbackHandler env cfg r s =
     (case sessstore_Get env r (Session_Name cfg) of
        (vals, Some err) \<Rightarrow>
          http_Error err 500
            (log_Error (''/auth could not find session store '' @ Session_Name cfg) s)
      | (vals, None) \<Rightarrow>
          (let s1 = s\<lparr>sessValues := vals\<rparr>;
               queryState = Query_Get r ''state''
           in if sessValues s1 ''state'' \<noteq> IString queryState then
                renderIndex env cfg ''/auth Invalid session state.''
                  (log_Error (''/auth Invalid session state: stored ''
                     @ Sprintf_s env (sessValues s1 ''state'') @ '', returned '' @ queryState) s1)
              else if Query_Get r ''error'' \<noteq> [] then
                renderIndex env cfg (''FORBIDDEN: '' @ Query_Get r ''error_description'')
                  (WriteHeader 403
                    (log_Warn (''/auth Error state: '' @ Query_Get r ''error''
                       @ '', Error description: '' @ Query_Get r ''error_description'') s1))
              else
                (case getUserInfo env r s1 of
                   (Inl err, s2) \<Rightarrow> http_Error err 400 (log_Error err s2)
                 | (Inr (user, customClaims, ptokens), s2) \<Rightarrow>
                     (case sessValues s2 ''requestedURL'' of
                        IString requestedURL \<Rightarrow>
                          (case VerifyUser cfg env user of
                             (ok, err) \<Rightarrow>
                               (let s3 = s2\<lparr>calls := calls s2 @ [VerifyUserCall user]\<rparr> in
                                if \<not> ok then denied env cfg err requestedURL s3
                                else authorized env cfg user customClaims ptokens requestedURL s3))
                      | _ \<Rightarrow> s2\<lparr>panicked := True\<rparr>))))"

section \<open>Observations on a finished handler\<close>

fun isCreateCall :: "call \<Rightarrow> bool" where
  "isCreateCall (CreateUserTokenStringCall u c p) = True"
| "isCreateCall _ = False"

fun isVerifyCall :: "call \<Rightarrow> bool" where
  "isVerifyCall (VerifyUserCall u) = True"
| "isVerifyCall _ = False"

fun isSetCookie :: "cookie_op \<Rightarrow> bool" where
  "isSetCookie (SetCookie v) = True"
| "isSetCookie _ = False"

text \<open>A proof token was created or a proof cookie was set.\<close>

definition tokenIssued :: "HState \<Rightarrow> bool" where
  "tokenIssued s = (list_ex isCreateCall (calls s) \<or> list_ex isSetCookie (cookieOps s))"

text \<open>The header text of a claim value: a sequence as its quoted elements joined by
  commas, any other value as \<^verbatim>\<open>fmt.Sprint\<close> prints it.\<close>

definition render :: "'t Env \<Rightarrow> iface \<Rightarrow> string" where
  "render env v =
     (case v of
        ISlice val \<Rightarrow> Join (map (\<lambda>e. [CHR 0x22] @ Sprintf_s env e @ [CHR 0x22]) val) '',''
      | _ \<Rightarrow> Sprint env v)"

text \<open>The token yields no identity: it does not parse, its claims cannot be extracted, or
  they hold no username. \<open>rejectReason\<close> is the message of that failure.\<close>

definition noIdentity :: "'t Env \<Rightarrow> string \<Rightarrow> bool" where
  "noIdentity env jwt =
     (case ParseTokenString env jwt of
        Inl err \<Rightarrow> True
      | Inr tok \<Rightarrow> (case PTokenClaims env tok of
                      Inl err \<Rightarrow> True
                    | Inr claims \<Rightarrow> vcUsername claims = []))"

definition rejectReason :: "'t Env \<Rightarrow> string \<Rightarrow> string" where
  "rejectReason env jwt =
     (case ParseTokenString env jwt of
        Inl err \<Rightarrow> err
      | Inr tok \<Rightarrow> (case PTokenClaims env tok of
                      Inl err \<Rightarrow> err
                    | Inr claims \<Rightarrow> ''no Username found in jwt''))"

section \<open>A sample deployment\<close>

text \<open>One configuration, one set of collaborators and a few requests, on which the
  handlers are run below. The sample token manager knows two token strings; the sample
  provider knows one authorization code.\<close>

definition alice :: User where
  "alice = \<lparr> Username = ''alice'', Email = ''alice@example.com'', TeamMemberships = [''ops''] \<rparr>"

definition aliceTokens :: PTokens where
  "aliceTokens = \<lparr> PAccessToken = ''at-1'', PIdToken = ''id-1'' \<rparr>"

definition aliceClaims :: VouchClaims where
  "aliceClaims =
     \<lparr> vcUsername = ''alice'',
       vcCustomClaims = [(''groups'', ISlice [IString ''a'', IString ''b'']),
                         (''profile'', IMap [(''a'', IString ''b'')])],
       vcPAccessToken = ''at-1'', vcPIdToken = ''id-1'' \<rparr>"

definition sampleCfg :: Cfg where
  "sampleCfg =
     \<lparr> AllowAllUsers = False, PublicAccess = False, Testing = False,
       WhiteList = [''alice''], TeamWhiteList = [], Domains = [],
       Headers_JWT = ''X-Vouch-Token'', Headers_User = ''X-Vouch-User'',
       Headers_Success = ''X-Vouch-Success'', Headers_QueryString = ''access_token'',
       Headers_AccessToken = [], Headers_IDToken = [],
       Headers_ClaimsCleaned = [(''groups'', ''X-Groups''), (''profile'', ''X-Profile'')],
       Session_Name = ''VouchSession'', Branding_CcName = ''Vouch'',
       GenOAuth_Provider = ''adfs'', GenOAuth_RedirectURLs = [],
       Providers_IndieAuth = ''indieauth'', Providers_ADFS = ''adfs'',
       OAuthopts = None \<rparr>"

definition sampleEnv :: "(string \<Rightarrow> iface) \<Rightarrow> string Env" where
  "sampleEnv stored =
     \<lparr> cookie_Cookie = (\<lambda>r. case map_of (Cookies r) ''VouchCookie'' of
                            None \<Rightarrow> Inl ''http: named cookie not present''
                          | Some v \<Rightarrow> Inr v),
       ParseTokenString = (\<lambda>jwt. if jwt = ''tok-alice'' \<or> jwt = ''tok-anon'' then Inr jwt
                                  else Inl ''token contains an invalid number of segments''),
       PTokenClaims = (\<lambda>t. if t = ''tok-alice'' then Inr aliceClaims
                            else Inr (aliceClaims\<lparr>vcUsername := []\<rparr>)),
       SiteInClaims = (\<lambda>h c. h = ''a.example.com''),
       CreateUserTokenString = (\<lambda>u c p. ''tok-'' @ Username u),
       IsUnderManagement = (\<lambda>e. suffix ''@example.com'' e),
       domains_Matches = (\<lambda>h. ''example.com''),
       provider_GetUserInfo = (\<lambda>r. if Query_Get r ''code'' = ''good''
                                     then Inr (alice, [], aliceTokens)
                                     else Inl ''oauth2: cannot fetch token''),
       sessstore_Get = (\<lambda>r name. (stored, None)),
       session_Save = (\<lambda>v. None),
       URLBase64InBytes = (\<lambda>n. Inr ''abc-DEF_123=''),
       AuthCodeURL = (\<lambda>redirect st opts.
                        ''https://adfs.example.com/adfs/oauth2/authorize/?state='' @ st),
       indexTemplate_Execute = (\<lambda>ix. (''<p>'' @ Msg ix @ ''</p>'', None)),
       fmt_v = (\<lambda>v. ''map[a:b]''),
       fmt_s = (\<lambda>v. ''%!s(?)'') \<rparr>"

definition noSession :: "string \<Rightarrow> iface" where
  "noSession = (\<lambda>k. INil)"

text \<open>The session a login for \<^verbatim>\<open>https://app.example.com/\<close> leaves behind.\<close>

definition loginSession :: "string \<Rightarrow> iface" where
  "loginSession =
     noSession(''state'' := IString ''abcDEF123'',
               ''requestedURL'' := IString ''https://app.example.com/'',
               ''https://app.example.com/'' := IInt 1)"

definition req :: "(string \<times> string) list \<Rightarrow> (string \<times> string) list \<Rightarrow> Request" where
  "req hdrs query =
     \<lparr> Host = ''b.example.com'',
       Header_Get = (\<lambda>k. case map_of hdrs k of None \<Rightarrow> [] | Some v \<Rightarrow> v),
       Query_Get = (\<lambda>k. case map_of query k of None \<Rightarrow> [] | Some v \<Rightarrow> v),
       Cookies = [] \<rparr>"

text \<open>A request for \<^verbatim>\<open>a.example.com\<close> that carries a bearer token.\<close>

definition tokReq :: "string \<Rightarrow> Request" where
  "tokReq tok = (req [(''Authorization'', ''Bearer '' @ tok)] [])\<lparr>Host := ''a.example.com''\<rparr>"

text \<open>A callback on which the provider reports an error, and one that carries a good
  authorization code for the session of the sample login.\<close>

definition errReq :: "string \<Rightarrow> Request" where
  "errReq st = req [] [(''state'', st), (''error'', ''access_denied''),
                       (''error_description'', ''The user denied the request'')]"

definition okReq :: Request where
  "okReq = req [] [(''state'', ''abcDEF123''), (''code'', ''good'')]"

text \<open>The login request for \<^verbatim>\<open>https://app.example.com/\<close>, and the session two such
  logins leave behind.\<close>

definition loginReq :: Request where
  "loginReq = req [] [(''url'', ''https://app.example.com/'')]"

definition loginSession2 :: "string \<Rightarrow> iface" where
  "loginSession2 = loginSession(''https://app.example.com/'' := IInt 2)"

section \<open>Properties of the policy\<close>

lemma inWhiteList_set: "inWhiteList u wls = (u \<in> set wls)"
  by (induction wls) auto

lemma teamsInWhiteList_set: "teamsInWhiteList teams wls = (set teams \<inter> set wls \<noteq> {})"
  by (induction teams) (auto simp: inWhiteList_set)

text \<open>
  C3. \<open>VerifyUser\<close> is a function of the identity and the policy configuration alone, and
  its decision is that of the first configured tier: allow-all; else the username
  whitelist, by membership of the username; else the team whitelist, by a common element
  with the team memberships; else the managed domains, by \<open>IsUnderManagement\<close> of the
  email; else permit. An error accompanies exactly the denials.
\<close>

theorem VerifyUser_tiers:
  "fst (VerifyUser cfg env user) =
     (if AllowAllUsers cfg then True
      else if WhiteList cfg \<noteq> [] then Username user \<in> set (WhiteList cfg)
      else if TeamWhiteList cfg \<noteq> [] then
        set (TeamMemberships user) \<inter> set (TeamWhiteList cfg) \<noteq> {}
      else if Domains cfg \<noteq> [] then IsUnderManagement env (Email user)
      else True)
   \<and> (snd (VerifyUser cfg env user) = None) = fst (VerifyUser cfg env user)"
  by (simp add: VerifyUser_def inWhiteList_set teamsInWhiteList_set)

theorem VerifyUser_tiers_witness:
  "fst (VerifyUser sampleCfg (sampleEnv noSession) alice)
   \<and> \<not> fst (VerifyUser sampleCfg (sampleEnv noSession) (alice\<lparr>Username := ''mallory''\<rparr>))
   \<and> \<not> fst (VerifyUser (sampleCfg\<lparr>WhiteList := [], TeamWhiteList := [''dev'']\<rparr>) (sampleEnv noSession) alice)"
proof -
  have 1: "fst (VerifyUser sampleCfg (sampleEnv noSession) alice)"
    using VerifyUser_tiers [of sampleCfg "sampleEnv noSession" alice]
    by (simp add: sampleCfg_def alice_def)
  have 2: "\<not> fst (VerifyUser sampleCfg (sampleEnv noSession) (alice\<lparr>Username := ''mallory''\<rparr>))"
    using VerifyUser_tiers [of sampleCfg "sampleEnv noSession" "alice\<lparr>Username := ''mallory''\<rparr>"]
    by (simp add: sampleCfg_def alice_def)
  have 3: "\<not> fst (VerifyUser (sampleCfg\<lparr>WhiteList := [], TeamWhiteList := [''dev'']\<rparr>) (sampleEnv noSession) alice)"
    using VerifyUser_tiers [of "sampleCfg\<lparr>WhiteList := [], TeamWhiteList := [''dev'']\<rparr>" "sampleEnv noSession" alice]
    by (simp add: sampleCfg_def alice_def)
  from 1 2 3 show ?thesis by simp
qed

section \<open>What the writer operations leave alone\<close>

lemmas writer_defs = Header_Add_def Header_Del_def Header_Set_def WriteHeader_def Write_def
  http_Error_def http_Redirect_def log_Error_def log_Warn_def cookie_ClearCookie_def
  cookie_SetCookie_def ok200_def error401_def Values_set_def

lemma renderIndex_frame [simp]:
  "header (renderIndex env cfg m s) = header s"
  "location (renderIndex env cfg m s) = location s"
  "cookieOps (renderIndex env cfg m s) = cookieOps s"
  "sessValues (renderIndex env cfg m s) = sessValues s"
  "saved (renderIndex env cfg m s) = saved s"
  "calls (renderIndex env cfg m s) = calls s"
  "TestURLs (renderIndex env cfg m s) = TestURLs s"
  "panicked (renderIndex env cfg m s) = panicked s"
  by (simp_all add: renderIndex_def writer_defs Let_def split: prod.splits option.splits)

lemma renderIndex_status [simp]:
  "status (renderIndex env cfg m s) = Some (case status s of None \<Rightarrow> 200 | Some c \<Rightarrow> c)"
  by (simp add: renderIndex_def writer_defs Let_def split: prod.splits option.splits)

lemma renderIndex_body [simp]:
  "body (renderIndex env cfg m s) =
     body s @ fst (indexTemplate_Execute env
        \<lparr> Msg = m, Index_TestURLs = TestURLs s, Index_Testing = Testing cfg \<rparr>)"
  by (simp add: renderIndex_def writer_defs Let_def split: prod.splits option.splits)

lemma Save_frame [simp]:
  "status (Save env s) = status s"
  "header (Save env s) = header s"
  "body (Save env s) = body s"
  "location (Save env s) = location s"
  "cookieOps (Save env s) = cookieOps s"
  "sessValues (Save env s) = sessValues s"
  "calls (Save env s) = calls s"
  "TestURLs (Save env s) = TestURLs s"
  "panicked (Save env s) = panicked s"
  by (simp_all add: Save_def writer_defs split: option.splits)

lemma redirect302_frame [simp]:
  "header (redirect302 env cfg u s) = header s"
  "cookieOps (redirect302 env cfg u s) = cookieOps s"
  "sessValues (redirect302 env cfg u s) = sessValues s"
  "saved (redirect302 env cfg u s) = saved s"
  "calls (redirect302 env cfg u s) = calls s"
  "panicked (redirect302 env cfg u s) = panicked s"
  by (simp_all add: redirect302_def writer_defs)

lemma http_Error_frame [simp]:
  "location (http_Error m c s) = location s"
  "cookieOps (http_Error m c s) = cookieOps s"
  "sessValues (http_Error m c s) = sessValues s"
  "saved (http_Error m c s) = saved s"
  "calls (http_Error m c s) = calls s"
  "panicked (http_Error m c s) = panicked s"
  by (simp_all add: writer_defs Let_def)

lemma loginURL_frame [simp]:
  "status (snd (loginURL env cfg r st s)) = status s"
  "header (snd (loginURL env cfg r st s)) = header s"
  "body (snd (loginURL env cfg r st s)) = body s"
  "location (snd (loginURL env cfg r st s)) = location s"
  "cookieOps (snd (loginURL env cfg r st s)) = cookieOps s"
  "sessValues (snd (loginURL env cfg r st s)) = sessValues s"
  "saved (snd (loginURL env cfg r st s)) = saved s"
  "calls (snd (loginURL env cfg r st s)) = calls s"
  "TestURLs (snd (loginURL env cfg r st s)) = TestURLs s"
  "panicked (snd (loginURL env cfg r st s)) = panicked s"
  by (simp_all add: loginURL_def Let_def split: option.splits)


section \<open>Token discovery\<close>

lemma SplitN_2_sep:
  "sep \<notin> set a \<Longrightarrow> SplitN_2 (a @ sep # b) sep = [a, b]"
  by (simp add: SplitN_2_def takeWhile_append dropWhile_append)

lemma SplitN_2_nosep:
  "sep \<notin> set s \<Longrightarrow> SplitN_2 s sep = [s]"
  by (simp add: SplitN_2_def)

text \<open>
  C10. When the cookie holds no token and the configured header is empty, an
  \<^verbatim>\<open>Authorization\<close> value with a space yields what follows its first space, whatever
  precedes it; a value without a space is passed over and the query-string parameter is
  returned.
\<close>

theorem FindJWT_Authorization:
  assumes "cookie_Cookie env r = Inl e" and "Header_Get r (Headers_JWT cfg) = []"
  shows "(Header_Get r ''Authorization'' = scheme @ '' '' @ rest \<and> CHR '' '' \<notin> set scheme
            \<longrightarrow> FindJWT env cfg r = rest)
       \<and> (CHR '' '' \<notin> set (Header_Get r ''Authorization'')
            \<longrightarrow> FindJWT env cfg r = Query_Get r (Headers_QueryString cfg))"
  using assms by (auto simp: FindJWT_def Let_def SplitN_2_sep SplitN_2_nosep)

theorem FindJWT_Authorization_witness:
  "FindJWT (sampleEnv noSession) sampleCfg (req [(''Authorization'', ''Basic tok-alice'')] []) = ''tok-alice''
   \<and> FindJWT (sampleEnv noSession) sampleCfg (req [(''Authorization'', ''tok-alice'')] [(''access_token'', ''q'')]) = ''q''"
  using FindJWT_Authorization [of "sampleEnv noSession" "req [(''Authorization'', ''Basic tok-alice'')] []"
          "''http: named cookie not present''" sampleCfg "''Basic''" "''tok-alice''"]
        FindJWT_Authorization [of "sampleEnv noSession" "req [(''Authorization'', ''tok-alice'')] [(''access_token'', ''q'')]"
          "''http: named cookie not present''" sampleCfg "''Basic''" "''tok-alice''"]
  by (simp add: sampleCfg_def sampleEnv_def req_def)

section \<open>The request validator: what each step changes\<close>

lemma claimHeader_eq:
  "claimHeader env kv ch s =
     (if fst ch = fst kv then Header_Add (snd ch) (render env (snd kv)) s else s)"
  by (simp add: claimHeader_def render_def Kind_is_String_def Let_def split: iface.splits)

lemma Header_Add_frame [simp]:
  "status (Header_Add k v s) = status s"
  "body (Header_Add k v s) = body s"
  "location (Header_Add k v s) = location s"
  "cookieOps (Header_Add k v s) = cookieOps s"
  "sessValues (Header_Add k v s) = sessValues s"
  "saved (Header_Add k v s) = saved s"
  "calls (Header_Add k v s) = calls s"
  "logs (Header_Add k v s) = logs s"
  "TestURLs (Header_Add k v s) = TestURLs s"
  "panicked (Header_Add k v s) = panicked s"
  by (simp_all add: Header_Add_def)

lemma Header_Add_header:
  "status s = None \<Longrightarrow> header (Header_Add k v s) = header s @ [(k, v)]"
  by (simp add: Header_Add_def)

lemma claimHeader_frame [simp]:
  "status (claimHeader env kv ch s) = status s"
  "body (claimHeader env kv ch s) = body s"
  "location (claimHeader env kv ch s) = location s"
  "cookieOps (claimHeader env kv ch s) = cookieOps s"
  "logs (claimHeader env kv ch s) = logs s"
  "TestURLs (claimHeader env kv ch s) = TestURLs s"
  "panicked (claimHeader env kv ch s) = panicked s"
  by (simp_all add: claimHeader_eq)

lemma fold_claimHeader_frame [simp]:
  "status (fold (claimHeader env kv) chs s) = status s"
  "body (fold (claimHeader env kv) chs s) = body s"
  "location (fold (claimHeader env kv) chs s) = location s"
  "cookieOps (fold (claimHeader env kv) chs s) = cookieOps s"
  "logs (fold (claimHeader env kv) chs s) = logs s"
  "TestURLs (fold (claimHeader env kv) chs s) = TestURLs s"
  "panicked (fold (claimHeader env kv) chs s) = panicked s"
  by (induction chs arbitrary: s; simp)+

lemma fold_fold_claimHeader_frame [simp]:
  "status (fold (\<lambda>kv. fold (claimHeader env kv) chs) kvs s) = status s"
  "body (fold (\<lambda>kv. fold (claimHeader env kv) chs) kvs s) = body s"
  "location (fold (\<lambda>kv. fold (claimHeader env kv) chs) kvs s) = location s"
  "cookieOps (fold (\<lambda>kv. fold (claimHeader env kv) chs) kvs s) = cookieOps s"
  "logs (fold (\<lambda>kv. fold (claimHeader env kv) chs) kvs s) = logs s"
  "TestURLs (fold (\<lambda>kv. fold (claimHeader env kv) chs) kvs s) = TestURLs s"
  "panicked (fold (\<lambda>kv. fold (claimHeader env kv) chs) kvs s) = panicked s"
  by (induction kvs arbitrary: s; simp)+

lemma projectClaims_frame [simp]:
  "status (projectClaims env cfg claims s) = status s"
  "body (projectClaims env cfg claims s) = body s"
  "location (projectClaims env cfg claims s) = location s"
  "cookieOps (projectClaims env cfg claims s) = cookieOps s"
  "logs (projectClaims env cfg claims s) = logs s"
  "TestURLs (projectClaims env cfg claims s) = TestURLs s"
  "panicked (projectClaims env cfg claims s) = panicked s"
  by (simp_all add: projectClaims_def)

text \<open>Headers only grow, and a matching pair leaves its header behind.\<close>

lemma claimHeader_mono:
  "x \<in> set (header s) \<Longrightarrow> x \<in> set (header (claimHeader env kv ch s))"
  by (simp add: claimHeader_eq Header_Add_def)

lemma fold_claimHeader_mono:
  "x \<in> set (header s) \<Longrightarrow> x \<in> set (header (fold (claimHeader env kv) chs s))"
  by (induction chs arbitrary: s) (simp_all add: claimHeader_mono)

lemma fold_fold_claimHeader_mono:
  "x \<in> set (header s) \<Longrightarrow>
     x \<in> set (header (fold (\<lambda>kv. fold (claimHeader env kv) chs) kvs s))"
  by (induction kvs arbitrary: s) (simp_all add: fold_claimHeader_mono)

lemma fold_claimHeader_adds:
  "(fst kv, h) \<in> set chs \<Longrightarrow> status s = None \<Longrightarrow>
     (h, render env (snd kv)) \<in> set (header (fold (claimHeader env kv) chs s))"
proof (induction chs arbitrary: s)
  case Nil
  then show ?case by simp
next
  case (Cons ch chs)
  show ?case
  proof (cases "ch = (fst kv, h)")
    case True
    have "(h, render env (snd kv)) \<in> set (header (claimHeader env kv ch s))"
      using True Cons.prems(2) by (simp add: claimHeader_eq Header_Add_header)
    then show ?thesis by (simp add: fold_claimHeader_mono)
  next
    case False
    with Cons.prems have "(fst kv, h) \<in> set chs" by simp
    then show ?thesis using Cons.IH [of "claimHeader env kv ch s"] Cons.prems(2) by simp
  qed
qed

lemma fold_fold_claimHeader_adds:
  "(k, v) \<in> set kvs \<Longrightarrow> (k, h) \<in> set chs \<Longrightarrow> status s = None \<Longrightarrow>
     (h, render env v) \<in> set (header (fold (\<lambda>kv. fold (claimHeader env kv) chs) kvs s))"
proof (induction kvs arbitrary: s)
  case Nil
  then show ?case by simp
next
  case (Cons kv kvs)
  show ?case
  proof (cases "kv = (k, v)")
    case True
    have "(h, render env v) \<in> set (header (fold (claimHeader env kv) chs s))"
      using True Cons.prems fold_claimHeader_adds [of kv h chs s env] by simp
    then show ?thesis by (simp add: fold_fold_claimHeader_mono)
  next
    case False
    with Cons.prems have "(k, v) \<in> set kvs" by simp
    then show ?thesis
      using Cons.IH [of "fold (claimHeader env kv) chs s"] Cons.prems by simp
  qed
qed

lemma projectClaims_mono:
  "x \<in> set (header s) \<Longrightarrow> x \<in> set (header (projectClaims env cfg claims s))"
  by (simp add: projectClaims_def fold_fold_claimHeader_mono)

lemma projectClaims_adds:
  "(k, v) \<in> set (vcCustomClaims claims) \<Longrightarrow> (k, h) \<in> set (Headers_ClaimsCleaned cfg) \<Longrightarrow>
   status s = None \<Longrightarrow>
     (h, render env v) \<in> set (header (projectClaims env cfg claims s))"
  using fold_fold_claimHeader_adds [of k v "vcCustomClaims claims" h "Headers_ClaimsCleaned cfg" s env]
  by (auto simp: projectClaims_def)

lemma ok200_frame [simp]:
  "status (ok200 s) = Some (case status s of None \<Rightarrow> 200 | Some c \<Rightarrow> c)"
  "header (ok200 s) = header s"
  "body (ok200 s) = body s @ ''200 OK'' @ [CHR 0x0A]"
  "location (ok200 s) = location s"
  "cookieOps (ok200 s) = cookieOps s"
  "logs (ok200 s) = logs s"
  "panicked (ok200 s) = panicked s"
  by (simp_all add: ok200_def Write_def WriteHeader_def Let_def split: option.splits)

lemma validated_header:
  "status s = None \<Longrightarrow>
     x \<in> set (header s) \<or> x = (Headers_User cfg, vcUsername claims)
       \<or> x = (Headers_Success cfg, ''true'')
     \<Longrightarrow> x \<in> set (header (validated env cfg claims s))"
  by (auto simp: validated_def Let_def Header_Add_header)

lemma validated_frame [simp]:
  "status (validated env cfg claims s) = Some (case status s of None \<Rightarrow> 200 | Some c \<Rightarrow> c)"
  "cookieOps (validated env cfg claims s) = cookieOps s"
  "location (validated env cfg claims s) = location s"
  "panicked (validated env cfg claims s) = panicked s"
  by (simp_all add: validated_def Let_def)

lemma error401_result [simp]:
  "status s = None \<Longrightarrow> status (error401 ae s) = Some 401"
  "status s = None \<Longrightarrow> header s = [] \<Longrightarrow> header (error401 ae s) =
     [(''Content-Type'', ''text/plain; charset=utf-8''), (''X-Content-Type-Options'', ''nosniff'')]"
  "status s = None \<Longrightarrow> body (error401 ae s) = body s @ Error ae @ [CHR 0x0A]"
  "cookieOps (error401 ae s) = cookieOps s @ [ClearCookie]"
  "location (error401 ae s) = location s"
  "logs (error401 ae s) = logs s @ [LogError (Error ae)]"
  "panicked (error401 ae s) = panicked s"
  by (simp_all add: writer_defs Let_def)

lemma ClaimsFromJWT_frame [simp]:
  "status (snd (ClaimsFromJWT env jwt s)) = status s"
  "header (snd (ClaimsFromJWT env jwt s)) = header s"
  "body (snd (ClaimsFromJWT env jwt s)) = body s"
  "location (snd (ClaimsFromJWT env jwt s)) = location s"
  "cookieOps (snd (ClaimsFromJWT env jwt s)) = cookieOps s"
  "panicked (snd (ClaimsFromJWT env jwt s)) = panicked s"
  by (simp_all add: ClaimsFromJWT_def log_Error_def split: sum.splits)

lemma start_fields [simp]:
  "status (start urls ru) = None"
  "header (start urls ru) = []"
  "body (start urls ru) = []"
  "location (start urls ru) = None"
  "cookieOps (start urls ru) = []"
  "sessValues (start urls ru) = (\<lambda>k. INil)"
  "saved (start urls ru) = None"
  "calls (start urls ru) = []"
  "logs (start urls ru) = []"
  "TestURLs (start urls ru) = urls"
  "OAuthClient_RedirectURL (start urls ru) = ru"
  "panicked (start urls ru) = False"
  by (simp_all add: start_def)

section \<open>Per-host authorization\<close>

text \<open>
  C2. A request with a token that parses to claims with a username, allow-all off: the
  identity and success headers are written (status 200) when \<open>SiteInClaims\<close> holds for the
  request's host; when it does not, the answer is 401 with the message naming the host
  and the cookie cleared, or under public access a 200 whose only header is the empty
  identity header. The success header is written in the first case only.
\<close>

theorem ValidateRequestHandler_site:
  assumes "FindJWT env cfg r = jwt" and "jwt \<noteq> []"
    and "ParseTokenString env jwt = Inr tok" and "PTokenClaims env tok = Inr claims"
    and "vcUsername claims \<noteq> []" and "\<not> AllowAllUsers cfg"
  shows "let res = ValidateRequestHandler env cfg r (start urls ru) in
     if SiteInClaims env (Host r) claims then
       (Headers_User cfg, vcUsername claims) \<in> set (header res)
       \<and> (Headers_Success cfg, ''true'') \<in> set (header res)
       \<and> status res = Some 200 \<and> cookieOps res = []
     else if PublicAccess cfg then
       finalStatus res = Some 200 \<and> header res = [(Headers_User cfg, [])] \<and> body res = []
       \<and> cookieOps res = [] \<and> (Headers_Success cfg, ''true'') \<notin> set (header res)
     else
       status res = Some 401
       \<and> body res = ''http header 'Host: '' @ Host r
             @ ''' not authorized for configured `vouch.domains` (is Host being sent properly?)''
             @ [CHR 0x0A]
       \<and> cookieOps res = [ClearCookie]
       \<and> (Headers_Success cfg, ''true'') \<notin> set (header res)"
proof -
  have c: "ClaimsFromJWT env jwt (start urls ru) = (Inr claims, start urls ru)"
    using assms(3,4) by (simp add: ClaimsFromJWT_def)
  show ?thesis
  proof (cases "SiteInClaims env (Host r) claims")
    case True
    then have res: "ValidateRequestHandler env cfg r (start urls ru) =
        validated env cfg claims (projectClaims env cfg claims (start urls ru))"
      using assms c by (simp add: ValidateRequestHandler_def Let_def)
    show ?thesis using True
      by (simp add: res Let_def validated_header)
  next
    case False
    show ?thesis
    proof (cases "PublicAccess cfg")
      case True
      then have res: "ValidateRequestHandler env cfg r (start urls ru) =
          Header_Add (Headers_User cfg) [] (start urls ru)"
        using assms c False by (simp add: ValidateRequestHandler_def Let_def)
      show ?thesis using False True
        by (simp add: res Let_def Header_Add_header finalStatus_def)
    next
      case nopub: False
      then have res: "ValidateRequestHandler env cfg r (start urls ru) =
          error401 \<lparr> Error = ''http header 'Host: '' @ Host r
             @ ''' not authorized for configured `vouch.domains` (is Host being sent properly?)'',
             JWT = jwt \<rparr> (start urls ru)"
        using assms c False by (simp add: ValidateRequestHandler_def Let_def)
      show ?thesis using False nopub
        by (simp add: res Let_def)
    qed
  qed
qed

lemma sample_FindJWT:
  "FindJWT (sampleEnv st) sampleCfg (tokReq tok) = tok"
  by (simp add: FindJWT_def sampleEnv_def sampleCfg_def tokReq_def req_def SplitN_2_def Let_def)

theorem ValidateRequestHandler_site_witness:
  "(let res = ValidateRequestHandler (sampleEnv noSession) sampleCfg (tokReq ''tok-alice'') (start [] []) in
      (''X-Vouch-User'', ''alice'') \<in> set (header res) \<and> (''X-Vouch-Success'', ''true'') \<in> set (header res)
      \<and> status res = Some 200)
   \<and> (let res = ValidateRequestHandler (sampleEnv noSession) sampleCfg
                 ((tokReq ''tok-alice'')\<lparr>Host := ''b.example.com''\<rparr>) (start [] []) in
      status res = Some 401 \<and> cookieOps res = [ClearCookie]
      \<and> (''X-Vouch-Success'', ''true'') \<notin> set (header res))"
proof -
  have 1: "ParseTokenString (sampleEnv noSession) ''tok-alice'' = Inr ''tok-alice''"
    and 2: "PTokenClaims (sampleEnv noSession) ''tok-alice'' = Inr aliceClaims"
    and 3: "vcUsername aliceClaims \<noteq> []" and 4: "\<not> AllowAllUsers sampleCfg"
    and 5: "SiteInClaims (sampleEnv noSession) ''a.example.com'' aliceClaims"
    and 6: "\<not> SiteInClaims (sampleEnv noSession) ''b.example.com'' aliceClaims"
    and 7: "\<not> PublicAccess sampleCfg"
    and 8: "Headers_User sampleCfg = ''X-Vouch-User''" "Headers_Success sampleCfg = ''X-Vouch-Success''"
      "vcUsername aliceClaims = ''alice''"
    by (simp_all add: sampleEnv_def aliceClaims_def sampleCfg_def)
  have f: "FindJWT (sampleEnv noSession) sampleCfg (tokReq ''tok-alice'') = ''tok-alice''"
    "FindJWT (sampleEnv noSession) sampleCfg ((tokReq ''tok-alice'')\<lparr>Host := ''b.example.com''\<rparr>) = ''tok-alice''"
    by (simp_all add: FindJWT_def sampleEnv_def sampleCfg_def tokReq_def req_def SplitN_2_def Let_def)
  have h: "Host (tokReq ''tok-alice'') = ''a.example.com''" by (simp add: tokReq_def)
  show ?thesis
    using ValidateRequestHandler_site [OF f(1) _ 1 2 3 4, of "[]" "[]"]
      ValidateRequestHandler_site [OF f(2) _ 1 2 3 4, of "[]" "[]"]
    by (simp add: 5 6 7 8 h Let_def)
qed

section \<open>A token without an identity\<close>

lemma ValidateRequestHandler_none:
  "FindJWT env cfg r0 = [] \<Longrightarrow>
     ValidateRequestHandler env cfg r0 s =
       (if PublicAccess cfg then ok200 (Header_Add (Headers_User cfg) [] s)
        else error401 \<lparr> Error = ''no jwt found in request'', JWT = [] \<rparr> s)"
  by (simp add: ValidateRequestHandler_def)

lemma ValidateRequestHandler_noIdentity:
  "FindJWT env cfg r \<noteq> [] \<Longrightarrow> noIdentity env (FindJWT env cfg r) \<Longrightarrow>
     ValidateRequestHandler env cfg r s =
       (if PublicAccess cfg
        then Header_Add (Headers_User cfg) [] (snd (ClaimsFromJWT env (FindJWT env cfg r) s))
        else error401 \<lparr> Error = rejectReason env (FindJWT env cfg r), JWT = FindJWT env cfg r \<rparr>
               (snd (ClaimsFromJWT env (FindJWT env cfg r) s)))"
  by (auto simp: ValidateRequestHandler_def noIdentity_def rejectReason_def ClaimsFromJWT_def Let_def
      split: sum.splits)

text \<open>
  C4, as the code has it. A request whose token does not parse or holds no username gets
  the status, the headers, the cookie clearing and the redirect target of a request with
  no token under the same public-access setting: 401 with the cookie cleared when public
  access is off, 200 with the empty identity header alone when it is on. The body is not
  part of this: the 401 body is the message of the failure at hand.
\<close>

theorem ValidateRequestHandler_no_identity:
  assumes "FindJWT env cfg r \<noteq> []" and "noIdentity env (FindJWT env cfg r)"
    and "FindJWT env cfg r0 = []"
  shows "let res = ValidateRequestHandler env cfg r (start urls ru);
             res0 = ValidateRequestHandler env cfg r0 (start urls ru)
         in finalStatus res = finalStatus res0 \<and> header res = header res0
            \<and> cookieOps res = cookieOps res0 \<and> location res = location res0
            \<and> (if PublicAccess cfg
                then finalStatus res = Some 200 \<and> header res = [(Headers_User cfg, [])]
                     \<and> cookieOps res = []
                else finalStatus res = Some 401 \<and> cookieOps res = [ClearCookie]
                     \<and> body res = rejectReason env (FindJWT env cfg r) @ [CHR 0x0A])"
  by (simp add: ValidateRequestHandler_none [OF assms(3)]
      ValidateRequestHandler_noIdentity [OF assms(1,2)] Let_def finalStatus_def Header_Add_header)

theorem ValidateRequestHandler_no_identity_witness:
  "(let res = ValidateRequestHandler (sampleEnv noSession) sampleCfg (tokReq ''garbage'') (start [] []);
        res0 = ValidateRequestHandler (sampleEnv noSession) sampleCfg (req [] []) (start [] [])
    in finalStatus res = Some 401 \<and> finalStatus res0 = Some 401 \<and> header res = header res0
       \<and> cookieOps res = [ClearCookie] \<and> cookieOps res0 = [ClearCookie])
   \<and> (let res = ValidateRequestHandler (sampleEnv noSession) (sampleCfg\<lparr>PublicAccess := True\<rparr>)
                  (tokReq ''tok-anon'') (start [] []);
           res0 = ValidateRequestHandler (sampleEnv noSession) (sampleCfg\<lparr>PublicAccess := True\<rparr>)
                  (req [] []) (start [] [])
       in finalStatus res = Some 200 \<and> finalStatus res0 = Some 200
          \<and> header res = [(''X-Vouch-User'', [])] \<and> header res0 = [(''X-Vouch-User'', [])])"
proof -
  have f: "FindJWT (sampleEnv noSession) sampleCfg (tokReq ''garbage'') = ''garbage''"
    "FindJWT (sampleEnv noSession) (sampleCfg\<lparr>PublicAccess := True\<rparr>) (tokReq ''tok-anon'') = ''tok-anon''"
    "FindJWT (sampleEnv noSession) sampleCfg (req [] []) = []"
    "FindJWT (sampleEnv noSession) (sampleCfg\<lparr>PublicAccess := True\<rparr>) (req [] []) = []"
    by (simp_all add: FindJWT_def sampleEnv_def sampleCfg_def tokReq_def req_def SplitN_2_def Let_def)
  have n: "noIdentity (sampleEnv noSession) ''garbage''" "noIdentity (sampleEnv noSession) ''tok-anon''"
    by (simp_all add: noIdentity_def sampleEnv_def aliceClaims_def)
  have c: "\<not> PublicAccess sampleCfg" "PublicAccess (sampleCfg\<lparr>PublicAccess := True\<rparr>)"
    "Headers_User (sampleCfg\<lparr>PublicAccess := True\<rparr>) = ''X-Vouch-User''"
    by (simp_all add: sampleCfg_def)
  have 1: "let res = ValidateRequestHandler (sampleEnv noSession) sampleCfg (tokReq ''garbage'') (start [] []);
        res0 = ValidateRequestHandler (sampleEnv noSession) sampleCfg (req [] []) (start [] [])
    in finalStatus res = Some 401 \<and> finalStatus res0 = Some 401 \<and> header res = header res0
       \<and> cookieOps res = [ClearCookie] \<and> cookieOps res0 = [ClearCookie]"
    using ValidateRequestHandler_no_identity [of "sampleEnv noSession" sampleCfg "tokReq ''garbage''"
        "req [] []" "[]" "[]"]
    by (auto simp add: f n c Let_def)
  have 2: "let res = ValidateRequestHandler (sampleEnv noSession) (sampleCfg\<lparr>PublicAccess := True\<rparr>)
                  (tokReq ''tok-anon'') (start [] []);
           res0 = ValidateRequestHandler (sampleEnv noSession) (sampleCfg\<lparr>PublicAccess := True\<rparr>)
                  (req [] []) (start [] [])
       in finalStatus res = Some 200 \<and> finalStatus res0 = Some 200
          \<and> header res = [(''X-Vouch-User'', [])] \<and> header res0 = [(''X-Vouch-User'', [])]"
    using ValidateRequestHandler_no_identity [of "sampleEnv noSession" "sampleCfg\<lparr>PublicAccess := True\<rparr>"
        "tokReq ''tok-anon''" "req [] []" "[]" "[]"]
    by (auto simp add: f n c Let_def)
  from 1 2 show ?thesis by simp
qed

text \<open>
  C4 as stated fails on the body: with public access off, a token that does not parse is
  answered with the parser's message, a request without a token with
  \<^verbatim>\<open>no jwt found in request\<close>.
\<close>

theorem ValidateRequestHandler_mirror_counterexample:
  "FindJWT (sampleEnv noSession) sampleCfg (tokReq ''garbage'') \<noteq> []
   \<and> noIdentity (sampleEnv noSession) (FindJWT (sampleEnv noSession) sampleCfg (tokReq ''garbage''))
   \<and> FindJWT (sampleEnv noSession) sampleCfg (req [] []) = []
   \<and> body (ValidateRequestHandler (sampleEnv noSession) sampleCfg (tokReq ''garbage'') (start [] []))
       = ''token contains an invalid number of segments'' @ [CHR 0x0A]
   \<and> body (ValidateRequestHandler (sampleEnv noSession) sampleCfg (req [] []) (start [] []))
       = ''no jwt found in request'' @ [CHR 0x0A]
   \<and> body (ValidateRequestHandler (sampleEnv noSession) sampleCfg (tokReq ''garbage'') (start [] []))
       \<noteq> body (ValidateRequestHandler (sampleEnv noSession) sampleCfg (req [] []) (start [] []))"
proof -
  have f: "FindJWT (sampleEnv noSession) sampleCfg (tokReq ''garbage'') = ''garbage''"
    "FindJWT (sampleEnv noSession) sampleCfg (req [] []) = []"
    by (simp_all add: FindJWT_def sampleEnv_def sampleCfg_def tokReq_def req_def SplitN_2_def Let_def)
  have n: "noIdentity (sampleEnv noSession) ''garbage''"
    by (simp add: noIdentity_def sampleEnv_def)
  have r: "rejectReason (sampleEnv noSession) ''garbage'' = ''token contains an invalid number of segments''"
    by (simp add: rejectReason_def sampleEnv_def)
  have c: "\<not> PublicAccess sampleCfg" by (simp add: sampleCfg_def)
  show ?thesis
    using ValidateRequestHandler_none [of "sampleEnv noSession" sampleCfg "req [] []" "start [] []"]
      ValidateRequestHandler_noIdentity [of "sampleEnv noSession" sampleCfg "tokReq ''garbage''" "start [] []"]
    by (simp add: f n r c)
qed

section \<open>Claim projection\<close>

text \<open>
  C9. For every custom claim of the token and every configured pair naming it, a header is
  written: the quoted elements joined by commas for a sequence, the text of
  \<^verbatim>\<open>fmt.Sprint\<close> for every other value, whatever its shape. Nothing is logged and no
  header is skipped: the error branch of line 253 is never taken.
\<close>

theorem projectClaims_any_shape:
  assumes "(k, v) \<in> set (vcCustomClaims claims)" and "(k, h) \<in> set (Headers_ClaimsCleaned cfg)"
    and "status s = None"
  shows "(h, render env v) \<in> set (header (projectClaims env cfg claims s))
       \<and> logs (projectClaims env cfg claims s) = logs s"
  using assms by (simp add: projectClaims_adds)

theorem projectClaims_any_shape_witness:
  "(let res = ValidateRequestHandler (sampleEnv noSession) sampleCfg (tokReq ''tok-alice'') (start [] [])
    in (''X-Profile'', ''map[a:b]'') \<in> set (header res) \<and> status res = Some 200)
   \<and> logs (projectClaims (sampleEnv noSession) sampleCfg aliceClaims (start [] [])) = []"
proof -
  have f: "FindJWT (sampleEnv noSession) sampleCfg (tokReq ''tok-alice'') = ''tok-alice''"
    by (rule sample_FindJWT)
  have c: "ClaimsFromJWT (sampleEnv noSession) ''tok-alice'' (start [] []) = (Inr aliceClaims, start [] [])"
    by (simp add: ClaimsFromJWT_def sampleEnv_def)
  have res: "ValidateRequestHandler (sampleEnv noSession) sampleCfg (tokReq ''tok-alice'') (start [] []) =
      validated (sampleEnv noSession) sampleCfg aliceClaims
        (projectClaims (sampleEnv noSession) sampleCfg aliceClaims (start [] []))"
    by (simp add: ValidateRequestHandler_def f c Let_def)
       (simp add: sampleEnv_def sampleCfg_def aliceClaims_def tokReq_def)
  have p: "(''X-Profile'', render (sampleEnv noSession) (IMap [(''a'', IString ''b'')]))
        \<in> set (header (projectClaims (sampleEnv noSession) sampleCfg aliceClaims (start [] [])))
      \<and> logs (projectClaims (sampleEnv noSession) sampleCfg aliceClaims (start [] [])) = logs (start [] [])"
    by (rule projectClaims_any_shape) (simp_all add: aliceClaims_def sampleCfg_def)
  have r: "render (sampleEnv noSession) (IMap [(''a'', IString ''b'')]) = ''map[a:b]''"
    by (simp add: render_def Sprint_def sampleEnv_def)
  show ?thesis using p by (simp add: res r Let_def validated_header)
qed

section \<open>The callback\<close>

lemma WriteHeader_frame [simp]:
  "header (WriteHeader c s) = header s"
  "body (WriteHeader c s) = body s"
  "location (WriteHeader c s) = location s"
  "cookieOps (WriteHeader c s) = cookieOps s"
  "sessValues (WriteHeader c s) = sessValues s"
  "saved (WriteHeader c s) = saved s"
  "calls (WriteHeader c s) = calls s"
  "logs (WriteHeader c s) = logs s"
  "TestURLs (WriteHeader c s) = TestURLs s"
  "panicked (WriteHeader c s) = panicked s"
  "status (WriteHeader c s) = Some (case status s of None \<Rightarrow> c | Some c0 \<Rightarrow> c0)"
  by (simp_all add: WriteHeader_def split: option.splits)

lemma log_frame [simp]:
  "status (log_Error m s) = status s" "status (log_Warn m s) = status s"
  "header (log_Error m s) = header s" "header (log_Warn m s) = header s"
  "body (log_Error m s) = body s" "body (log_Warn m s) = body s"
  "location (log_Error m s) = location s" "location (log_Warn m s) = location s"
  "cookieOps (log_Error m s) = cookieOps s" "cookieOps (log_Warn m s) = cookieOps s"
  "sessValues (log_Error m s) = sessValues s" "sessValues (log_Warn m s) = sessValues s"
  "saved (log_Error m s) = saved s" "saved (log_Warn m s) = saved s"
  "calls (log_Error m s) = calls s" "calls (log_Warn m s) = calls s"
  "TestURLs (log_Error m s) = TestURLs s" "TestURLs (log_Warn m s) = TestURLs s"
  "panicked (log_Error m s) = panicked s" "panicked (log_Warn m s) = panicked s"
  "OAuthClient_RedirectURL (log_Error m s) = OAuthClient_RedirectURL s"
  "OAuthClient_RedirectURL (log_Warn m s) = OAuthClient_RedirectURL s"
  by (simp_all add: log_Error_def log_Warn_def)

lemma denied_frame [simp]:
  "cookieOps (denied env cfg err url s) = cookieOps s"
  "calls (denied env cfg err url s) = calls s"
  "sessValues (denied env cfg err url s) = sessValues s"
  "saved (denied env cfg err url s) = saved s"
  "location (denied env cfg err url s) = location s"
  "panicked (denied env cfg err url s) = panicked s"
  by (simp_all add: denied_def Let_def)

lemma cookie_frame [simp]:
  "status (cookie_SetCookie v s) = status s" "status (cookie_ClearCookie s) = status s"
  "header (cookie_SetCookie v s) = header s" "header (cookie_ClearCookie s) = header s"
  "body (cookie_SetCookie v s) = body s" "body (cookie_ClearCookie s) = body s"
  "location (cookie_SetCookie v s) = location s" "location (cookie_ClearCookie s) = location s"
  "sessValues (cookie_SetCookie v s) = sessValues s" "sessValues (cookie_ClearCookie s) = sessValues s"
  "saved (cookie_SetCookie v s) = saved s" "saved (cookie_ClearCookie s) = saved s"
  "calls (cookie_SetCookie v s) = calls s" "calls (cookie_ClearCookie s) = calls s"
  "logs (cookie_SetCookie v s) = logs s" "logs (cookie_ClearCookie s) = logs s"
  "TestURLs (cookie_SetCookie v s) = TestURLs s" "TestURLs (cookie_ClearCookie s) = TestURLs s"
  "panicked (cookie_SetCookie v s) = panicked s" "panicked (cookie_ClearCookie s) = panicked s"
  "OAuthClient_RedirectURL (cookie_SetCookie v s) = OAuthClient_RedirectURL s"
  "OAuthClient_RedirectURL (cookie_ClearCookie s) = OAuthClient_RedirectURL s"
  "cookieOps (cookie_SetCookie v s) = cookieOps s @ [SetCookie v]"
  "cookieOps (cookie_ClearCookie s) = cookieOps s @ [ClearCookie]"
  by (simp_all add: cookie_SetCookie_def cookie_ClearCookie_def)

lemma Values_set_frame [simp]:
  "status (Values_set k v s) = status s"
  "header (Values_set k v s) = header s"
  "body (Values_set k v s) = body s"
  "location (Values_set k v s) = location s"
  "cookieOps (Values_set k v s) = cookieOps s"
  "saved (Values_set k v s) = saved s"
  "calls (Values_set k v s) = calls s"
  "logs (Values_set k v s) = logs s"
  "TestURLs (Values_set k v s) = TestURLs s"
  "panicked (Values_set k v s) = panicked s"
  "OAuthClient_RedirectURL (Values_set k v s) = OAuthClient_RedirectURL s"
  "sessValues (Values_set k v s) = (sessValues s)(k := v)"
  by (simp_all add: Values_set_def)

lemma Save_more [simp]:
  "OAuthClient_RedirectURL (Save env s) = OAuthClient_RedirectURL s"
  "saved (Save env s) = (case session_Save env (sessValues s) of
                            None \<Rightarrow> Some (sessValues s) | Some err \<Rightarrow> saved s)"
  by (simp_all add: Save_def log_Error_def split: option.splits)

lemma authorized_frame [simp]:
  "cookieOps (authorized env cfg user cc pt url s) =
     cookieOps s @ [SetCookie (CreateUserTokenString env user cc pt)]"
  "calls (authorized env cfg user cc pt url s) = calls s @ [CreateUserTokenStringCall user cc pt]"
  "panicked (authorized env cfg user cc pt url s) = panicked s"
  by (simp_all add: authorized_def Let_def)

text \<open>The calls a callback makes and the cookie operations it leaves, case by case.\<close>

lemma CallbackHandler_trace:
  "(calls (CallbackHandler env cfg r (start urls ru)),
    cookieOps (CallbackHandler env cfg r (start urls ru))) =
     (case sessstore_Get env r (Session_Name cfg) of
        (vals, Some err) \<Rightarrow> ([], [])
      | (vals, None) \<Rightarrow>
          if vals ''state'' \<noteq> IString (Query_Get r ''state'') then ([], [])
          else if Query_Get r ''error'' \<noteq> [] then ([], [])
          else
            (case provider_GetUserInfo env r of
               Inl err \<Rightarrow> ([GetUserInfoCall], [])
             | Inr (user, cc, pt) \<Rightarrow>
                 (case vals ''requestedURL'' of
                    IString url \<Rightarrow>
                      if fst (VerifyUser cfg env user)
                      then ([GetUserInfoCall, VerifyUserCall user,
                             CreateUserTokenStringCall user cc pt],
                            [SetCookie (CreateUserTokenString env user cc pt)])
                      else ([GetUserInfoCall, VerifyUserCall user], [])
                  | _ \<Rightarrow> ([GetUserInfoCall], []))))"
  by (simp add: CallbackHandler_def getUserInfo_def Let_def
      split: prod.splits option.splits sum.splits iface.splits)

text \<open>
  C1. In every callback, a token string is created or a proof cookie set only when the
  provider returned an identity and \<open>VerifyUser\<close> permitted it; the token is then created
  once, for that identity, after the policy call, and set as the cookie. When the
  provider fails or the policy denies, no token is created and no cookie is set.
\<close>

theorem CallbackHandler_issues_only_if_permitted:
  "let res = CallbackHandler env cfg r (start urls ru) in
     (tokenIssued res \<longrightarrow>
        (case provider_GetUserInfo env r of
           Inl err \<Rightarrow> False
         | Inr (user, cc, pt) \<Rightarrow>
             fst (VerifyUser cfg env user)
             \<and> calls res = [GetUserInfoCall, VerifyUserCall user, CreateUserTokenStringCall user cc pt]
             \<and> cookieOps res = [SetCookie (CreateUserTokenString env user cc pt)]))
     \<and> ((case provider_GetUserInfo env r of
            Inl err \<Rightarrow> True
          | Inr (user, cc, pt) \<Rightarrow> \<not> fst (VerifyUser cfg env user))
         \<longrightarrow> \<not> tokenIssued res \<and> cookieOps res = [])"
proof -
  obtain cs ops where t: "(calls (CallbackHandler env cfg r (start urls ru)),
      cookieOps (CallbackHandler env cfg r (start urls ru))) = (cs, ops)"
    by simp
  from t have c: "calls (CallbackHandler env cfg r (start urls ru)) = cs"
    and o: "cookieOps (CallbackHandler env cfg r (start urls ru)) = ops"
    by simp_all
  show ?thesis
    using t [unfolded CallbackHandler_trace]
    by (auto simp: Let_def tokenIssued_def c o
        split: prod.splits option.splits sum.splits iface.splits if_splits)
qed

theorem CallbackHandler_issues_only_if_permitted_witness:
  "(let res = CallbackHandler (sampleEnv loginSession) sampleCfg okReq (start [] []) in
      tokenIssued res \<and> fst (VerifyUser sampleCfg (sampleEnv loginSession) alice)
      \<and> cookieOps res = [SetCookie ''tok-alice''])
   \<and> (let res = CallbackHandler (sampleEnv loginSession) (sampleCfg\<lparr>WhiteList := [''bob'']\<rparr>) okReq
                   (start [] []) in
      \<not> tokenIssued res \<and> cookieOps res = [])"
proof -
  have g: "provider_GetUserInfo (sampleEnv loginSession) okReq = Inr (alice, [], aliceTokens)"
    by (simp add: sampleEnv_def okReq_def req_def)
  have v: "fst (VerifyUser sampleCfg (sampleEnv loginSession) alice)"
    "\<not> fst (VerifyUser (sampleCfg\<lparr>WhiteList := [''bob'']\<rparr>) (sampleEnv loginSession) alice)"
    by (simp_all add: VerifyUser_def sampleCfg_def alice_def)
  have i: "tokenIssued (CallbackHandler (sampleEnv loginSession) sampleCfg okReq (start [] []))"
    by (simp add: tokenIssued_def CallbackHandler_def okReq_def req_def sampleEnv_def sampleCfg_def
        loginSession_def noSession_def Let_def getUserInfo_def VerifyUser_def alice_def)
  have t: "CreateUserTokenString (sampleEnv loginSession) alice [] aliceTokens = ''tok-alice''"
    by (simp add: sampleEnv_def alice_def)
  show ?thesis
    using CallbackHandler_issues_only_if_permitted [of "sampleEnv loginSession" sampleCfg okReq "[]" "[]"]
      CallbackHandler_issues_only_if_permitted [of "sampleEnv loginSession"
        "sampleCfg\<lparr>WhiteList := [''bob'']\<rparr>" okReq "[]" "[]"]
    by (simp add: g v i t Let_def)
qed


lemma http_Error_result:
  "status s = None \<Longrightarrow> status (http_Error m c s) = Some c"
  "status s = None \<Longrightarrow> body (http_Error m c s) = body s @ m @ [CHR 0x0A]"
  by (simp_all add: writer_defs Let_def)

text \<open>
  C5, as the code has it. A callback with a non-empty \<^verbatim>\<open>error\<close> parameter never calls
  the provider, the policy or the token manager and sets no cookie. The session and the
  state are tested before the parameter is read: when the session cannot be loaded the
  answer is 500 with the store's error text; when it loads and the returned state differs
  from the stored one, the invalid-state page is rendered with status 200; when it loads
  and the state matches, the answer is 403 with the page for \<^verbatim>\<open>FORBIDDEN:\<close> and the
  error description.
\<close>

theorem CallbackHandler_provider_error:
  assumes "Query_Get r ''error'' \<noteq> []"
  shows "let res = CallbackHandler env cfg r (start urls ru);
             got = sessstore_Get env r (Session_Name cfg)
         in calls res = [] \<and> cookieOps res = [] \<and> \<not> tokenIssued res
            \<and> (case snd got of
                  Some err \<Rightarrow> status res = Some 500 \<and> body res = err @ [CHR 0x0A]
                | None \<Rightarrow>
                    if fst got ''state'' = IString (Query_Get r ''state'') then
                      status res = Some 403
                      \<and> body res = fst (indexTemplate_Execute env
                           \<lparr> Msg = ''FORBIDDEN: '' @ Query_Get r ''error_description'',
                             Index_TestURLs = urls, Index_Testing = Testing cfg \<rparr>)
                    else
                      status res = Some 200
                      \<and> body res = fst (indexTemplate_Execute env
                           \<lparr> Msg = ''/auth Invalid session state.'',
                             Index_TestURLs = urls, Index_Testing = Testing cfg \<rparr>))"
proof -
  obtain cs ops where t: "(calls (CallbackHandler env cfg r (start urls ru)),
      cookieOps (CallbackHandler env cfg r (start urls ru))) = (cs, ops)"
    by simp
  from t have c: "calls (CallbackHandler env cfg r (start urls ru)) = cs"
    and o: "cookieOps (CallbackHandler env cfg r (start urls ru)) = ops"
    by simp_all
  have 1: "cs = [] \<and> ops = []"
    using t [unfolded CallbackHandler_trace] assms
    by (auto split: prod.splits option.splits if_splits)
  obtain vals e where g: "sessstore_Get env r (Session_Name cfg) = (vals, e)"
    by (cases "sessstore_Get env r (Session_Name cfg)")
  have 2: "case e of
        Some err \<Rightarrow> status (CallbackHandler env cfg r (start urls ru)) = Some 500
                    \<and> body (CallbackHandler env cfg r (start urls ru)) = err @ [CHR 0x0A]
      | None \<Rightarrow>
          if vals ''state'' = IString (Query_Get r ''state'') then
            status (CallbackHandler env cfg r (start urls ru)) = Some 403
            \<and> body (CallbackHandler env cfg r (start urls ru)) = fst (indexTemplate_Execute env
                 \<lparr> Msg = ''FORBIDDEN: '' @ Query_Get r ''error_description'',
                   Index_TestURLs = urls, Index_Testing = Testing cfg \<rparr>)
          else
            status (CallbackHandler env cfg r (start urls ru)) = Some 200
            \<and> body (CallbackHandler env cfg r (start urls ru)) = fst (indexTemplate_Execute env
                 \<lparr> Msg = ''/auth Invalid session state.'',
                   Index_TestURLs = urls, Index_Testing = Testing cfg \<rparr>)"
    using assms
    by (cases e) (simp_all add: CallbackHandler_def g Let_def http_Error_result)
  show ?thesis using 1 2 by (cases e) (simp_all add: Let_def c o g tokenIssued_def)
qed

theorem CallbackHandler_provider_error_witness:
  "(let res = CallbackHandler (sampleEnv loginSession) sampleCfg (errReq ''abcDEF123'') (start [] []) in
     calls res = [] \<and> cookieOps res = [] \<and> status res = Some 403
     \<and> body res = ''<p>FORBIDDEN: The user denied the request</p>'')
   \<and> (let res = CallbackHandler (sampleEnv loginSession) sampleCfg (errReq ''forged'') (start [] []) in
     calls res = [] \<and> cookieOps res = [] \<and> status res = Some 200
     \<and> body res = ''<p>/auth Invalid session state.</p>'')
   \<and> (let res = CallbackHandler
                   ((sampleEnv loginSession)\<lparr>sessstore_Get :=
                       (\<lambda>r name. (noSession, Some ''securecookie: the value is not valid''))\<rparr>)
                   sampleCfg (errReq ''abcDEF123'') (start [] []) in
     calls res = [] \<and> cookieOps res = [] \<and> status res = Some 500
     \<and> body res = ''securecookie: the value is not valid'' @ [CHR 0x0A])"
proof -
  have e: "\<And>st. Query_Get (errReq st) ''error'' \<noteq> []"
    by (simp add: errReq_def req_def)
  have 1: "let res = CallbackHandler (sampleEnv loginSession) sampleCfg (errReq ''abcDEF123'') (start [] []) in
     calls res = [] \<and> cookieOps res = [] \<and> status res = Some 403
     \<and> body res = ''<p>FORBIDDEN: The user denied the request</p>''"
    using CallbackHandler_provider_error [OF e [of "''abcDEF123''"], of "sampleEnv loginSession" sampleCfg "[]" "[]"]
    by (simp add: errReq_def req_def sampleEnv_def sampleCfg_def loginSession_def Let_def)
  have 2: "let res = CallbackHandler (sampleEnv loginSession) sampleCfg (errReq ''forged'') (start [] []) in
     calls res = [] \<and> cookieOps res = [] \<and> status res = Some 200
     \<and> body res = ''<p>/auth Invalid session state.</p>''"
    using CallbackHandler_provider_error [OF e [of "''forged''"], of "sampleEnv loginSession" sampleCfg "[]" "[]"]
    by (simp add: errReq_def req_def sampleEnv_def sampleCfg_def loginSession_def Let_def)
  have 3: "let res = CallbackHandler
                   ((sampleEnv loginSession)\<lparr>sessstore_Get :=
                       (\<lambda>r name. (noSession, Some ''securecookie: the value is not valid''))\<rparr>)
                   sampleCfg (errReq ''abcDEF123'') (start [] []) in
     calls res = [] \<and> cookieOps res = [] \<and> status res = Some 500
     \<and> body res = ''securecookie: the value is not valid'' @ [CHR 0x0A]"
    using CallbackHandler_provider_error [OF e [of "''abcDEF123''"], of
        "(sampleEnv loginSession)\<lparr>sessstore_Get :=
           (\<lambda>r name. (noSession, Some ''securecookie: the value is not valid''))\<rparr>" sampleCfg "[]" "[]"]
    by (simp add: Let_def)
  from 1 2 3 show ?thesis by simp
qed

text \<open>
  C5 as stated fails when the returned state does not match the stored one: the handler
  renders the invalid-state page with status 200, whatever the \<^verbatim>\<open>error\<close> parameter.
\<close>

theorem CallbackHandler_provider_error_counterexample:
  "Query_Get (errReq ''forged'') ''error'' \<noteq> []
   \<and> status (CallbackHandler (sampleEnv loginSession) sampleCfg (errReq ''forged'') (start [] []))
       = Some 200
   \<and> body (CallbackHandler (sampleEnv loginSession) sampleCfg (errReq ''forged'') (start [] []))
       = ''<p>/auth Invalid session state.</p>''"
  by (simp add: CallbackHandler_def errReq_def req_def sampleEnv_def sampleCfg_def loginSession_def
      Let_def)

section \<open>The successful callback\<close>

lemma redirect302_result:
  "\<not> Testing cfg \<Longrightarrow> status s = None \<Longrightarrow>
     status (redirect302 env cfg u s) = Some 302 \<and> location (redirect302 env cfg u s) = Some u
     \<and> body (redirect302 env cfg u s) = body s"
  "Testing cfg \<Longrightarrow>
     location (redirect302 env cfg u s) = location s
     \<and> body (redirect302 env cfg u s) = body s @ fst (indexTemplate_Execute env
          \<lparr> Msg = ''302 redirect to: '' @ u, Index_TestURLs = TestURLs s @ [u],
            Index_Testing = True \<rparr>)"
  by (simp_all add: redirect302_def http_Redirect_def)

lemma CallbackHandler_authorized:
  assumes "sessstore_Get env r (Session_Name cfg) = (vals, None)"
    and "vals ''state'' = IString (Query_Get r ''state'')"
    and "Query_Get r ''error'' = []"
    and "provider_GetUserInfo env r = Inr (user, cc, pt)"
    and "fst (VerifyUser cfg env user)"
    and "vals ''requestedURL'' = IString url"
  shows "CallbackHandler env cfg r s =
     authorized env cfg user cc pt url
       (s\<lparr>sessValues := vals, calls := calls s @ [GetUserInfoCall, VerifyUserCall user]\<rparr>)"
  using assms
  by (auto simp: CallbackHandler_def getUserInfo_def Let_def split: prod.splits)

text \<open>
  C6, as the code has it. On a callback whose state matches, whose identity the provider
  returned and the policy permitted: the proof-token cookie is set. With a non-empty
  requested URL, the session's entry \<^verbatim>\<open>requestedURL\<close> is set to the empty string and
  then the entry of that URL to 0, and the session is saved; so the failure count of the
  URL is 0, the stored destination is empty unless the URL is the key
  \<^verbatim>\<open>requestedURL\<close> itself, and the stored nonce is as it was unless the URL is the key
  \<^verbatim>\<open>state\<close> itself. The answer is a 302 to the requested URL (in testing mode, a page
  naming that redirect). With an empty requested URL the page embedding the token is
  rendered and the session is left as it was.
\<close>

theorem CallbackHandler_success:
  assumes "sessstore_Get env r (Session_Name cfg) = (vals, None)"
    and "vals ''state'' = IString (Query_Get r ''state'')"
    and "Query_Get r ''error'' = []"
    and "provider_GetUserInfo env r = Inr (user, cc, pt)"
    and "fst (VerifyUser cfg env user)"
    and "vals ''requestedURL'' = IString url"
  shows "let res = CallbackHandler env cfg r (start urls ru);
             tok = CreateUserTokenString env user cc pt
         in cookieOps res = [SetCookie tok]
            \<and> (if url \<noteq> [] then
                  sessValues res = vals(''requestedURL'' := IString [], url := IInt 0)
                  \<and> sessValues res url = IInt 0
                  \<and> (url \<noteq> ''requestedURL'' \<longrightarrow> sessValues res ''requestedURL'' = IString [])
                  \<and> (url \<noteq> ''state'' \<longrightarrow> sessValues res ''state'' = vals ''state'')
                  \<and> (session_Save env (sessValues res) = None
                        \<longrightarrow> saved res = Some (sessValues res))
                  \<and> (if Testing cfg then
                        location res = None
                        \<and> body res = fst (indexTemplate_Execute env
                             \<lparr> Msg = ''302 redirect to: '' @ url, Index_TestURLs = urls @ [url],
                               Index_Testing = True \<rparr>)
                      else status res = Some 302 \<and> location res = Some url)
                else
                  status res = Some 200 \<and> location res = None
                  \<and> body res = fst (indexTemplate_Execute env
                       \<lparr> Msg = ''/auth '' @ tok, Index_TestURLs = urls,
                         Index_Testing = Testing cfg \<rparr>)
                  \<and> sessValues res = vals \<and> saved res = None)"
  by (simp add: CallbackHandler_authorized [OF assms] authorized_def Let_def redirect302_result)

theorem CallbackHandler_success_witness:
  "(let res = CallbackHandler (sampleEnv loginSession) sampleCfg okReq (start [] []) in
      cookieOps res = [SetCookie ''tok-alice''] \<and> status res = Some 302
      \<and> location res = Some ''https://app.example.com/''
      \<and> sessValues res ''https://app.example.com/'' = IInt 0
      \<and> sessValues res ''requestedURL'' = IString [])"
proof -
  have a: "sessstore_Get (sampleEnv loginSession) okReq (Session_Name sampleCfg) = (loginSession, None)"
    "loginSession ''state'' = IString (Query_Get okReq ''state'')"
    "Query_Get okReq ''error'' = []"
    "provider_GetUserInfo (sampleEnv loginSession) okReq = Inr (alice, [], aliceTokens)"
    "fst (VerifyUser sampleCfg (sampleEnv loginSession) alice)"
    "loginSession ''requestedURL'' = IString ''https://app.example.com/''"
    by (simp_all add: sampleEnv_def okReq_def req_def loginSession_def VerifyUser_def sampleCfg_def
        alice_def)
  have t: "CreateUserTokenString (sampleEnv loginSession) alice [] aliceTokens = ''tok-alice''"
    "\<not> Testing sampleCfg"
    by (simp_all add: sampleEnv_def alice_def sampleCfg_def)
  show ?thesis
    using CallbackHandler_success [OF a, of "[]" "[]"]
    by (simp add: t Let_def)
qed


text \<open>
  C6 as stated fails on the nonce: after the successful callback of the sample login the
  session in hand and the session saved still hold the nonce the callback matched.
\<close>

theorem CallbackHandler_nonce_counterexample:
  "(let res = CallbackHandler (sampleEnv loginSession) sampleCfg okReq (start [] []) in
      loginSession ''state'' = IString ''abcDEF123''
      \<and> cookieOps res = [SetCookie ''tok-alice''] \<and> status res = Some 302
      \<and> location res = Some ''https://app.example.com/''
      \<and> sessValues res ''state'' = IString ''abcDEF123''
      \<and> (case saved res of None \<Rightarrow> False | Some v \<Rightarrow> v ''state'' = IString ''abcDEF123''))"
proof -
  have a: "sessstore_Get (sampleEnv loginSession) okReq (Session_Name sampleCfg) = (loginSession, None)"
    "loginSession ''state'' = IString (Query_Get okReq ''state'')"
    "Query_Get okReq ''error'' = []"
    "provider_GetUserInfo (sampleEnv loginSession) okReq = Inr (alice, [], aliceTokens)"
    "fst (VerifyUser sampleCfg (sampleEnv loginSession) alice)"
    "loginSession ''requestedURL'' = IString ''https://app.example.com/''"
    by (simp_all add: sampleEnv_def okReq_def req_def loginSession_def VerifyUser_def sampleCfg_def
        alice_def)
  have t: "CreateUserTokenString (sampleEnv loginSession) alice [] aliceTokens = ''tok-alice''"
    "\<not> Testing sampleCfg" "session_Save (sampleEnv loginSession) = (\<lambda>v. None)"
    "loginSession ''state'' = IString ''abcDEF123''"
    by (simp_all add: sampleEnv_def alice_def sampleCfg_def loginSession_def)
  show ?thesis
    by (simp add: CallbackHandler_authorized [OF a] authorized_def Let_def redirect302_result t)
qed

section \<open>Login\<close>

lemma loginURL_fst:
  "OAuthClient_RedirectURL s = ru \<Longrightarrow>
     fst (loginURL env cfg r st s) = fst (loginURL env cfg r st (start urls ru))"
  by (simp add: loginURL_def Let_def split: option.splits)

lemma loginURL_status [simp]:
  "status (snd (loginURL env cfg r st s)) = status s"
  by (simp add: loginURL_def Let_def split: option.splits)

lemma loginCounted_result:
  assumes "status s = None" and "body s = []" and "location s = None"
  shows "let res = loginCounted env cfg r st url n s in
     sessValues res = (sessValues s)(url := IInt (n + 1))
     \<and> saved res = (case session_Save env (sessValues res) of
                       None \<Rightarrow> Some (sessValues res) | Some err \<Rightarrow> saved s)
     \<and> cookieOps res = cookieOps s
     \<and> (if n + 1 > 2 then
           status res = Some 200 \<and> location res = None
           \<and> body res = fst (indexTemplate_Execute env
                \<lparr> Msg = ''/login too many redirects for '' @ url @ '' - '' @ Query_Get r ''error'',
                  Index_TestURLs = TestURLs s, Index_Testing = Testing cfg \<rparr>)
         else if Testing cfg then
           status res = Some 200 \<and> location res = None
           \<and> body res = fst (indexTemplate_Execute env
                \<lparr> Msg = ''302 redirect to: ''
                        @ fst (loginURL env cfg r st (start [] (OAuthClient_RedirectURL s))),
                  Index_TestURLs = TestURLs s
                        @ [fst (loginURL env cfg r st (start [] (OAuthClient_RedirectURL s)))],
                  Index_Testing = True \<rparr>)
         else
           status res = Some 302 \<and> body res = []
           \<and> location res = Some (fst (loginURL env cfg r st
                 (start [] (OAuthClient_RedirectURL s)))))"
proof -
  let ?s1 = "Save env (Values_set url (IInt (n + 1)) s)"
  have u: "fst (loginURL env cfg r st ?s1) = fst (loginURL env cfg r st (start [] (OAuthClient_RedirectURL s)))"
    by (rule loginURL_fst) simp
  show ?thesis
    using assms u
    by (simp add: loginCounted_def Let_def split_beta redirect302_def http_Redirect_def
        split: option.splits)
qed

lemma logs_mono:
  "x \<in> set (logs s) \<Longrightarrow> x \<in> set (logs (Save env s))"
  "x \<in> set (logs s) \<Longrightarrow> x \<in> set (logs (renderIndex env cfg m s))"
  "x \<in> set (logs s) \<Longrightarrow> x \<in> set (logs (redirect302 env cfg u s))"
  "x \<in> set (logs s) \<Longrightarrow> x \<in> set (logs (snd (loginURL env cfg r st s)))"
  by (auto simp: Save_def renderIndex_def redirect302_def http_Redirect_def loginURL_def writer_defs
      Let_def split: option.splits prod.splits)

lemma loginCounted_logs:
  "x \<in> set (logs s) \<Longrightarrow> x \<in> set (logs (loginCounted env cfg r st url n s))"
  by (simp add: loginCounted_def Let_def split_beta logs_mono)

lemma LoginHandler_counted:
  assumes "Query_Get r ''url'' = url" and "url \<noteq> []"
    and "url \<noteq> ''state''" and "url \<noteq> ''requestedURL''"
    and "fst (sessstore_Get env r (Session_Name cfg)) url = INil \<and> n = 0
         \<or> fst (sessstore_Get env r (Session_Name cfg)) url = IInt n"
  shows "\<exists>s6. LoginHandler env cfg r (start urls ru)
               = loginCounted env cfg r (fst (generateStateNonce env)) url n s6
     \<and> status s6 = None \<and> body s6 = [] \<and> location s6 = None \<and> saved s6 = None
     \<and> cookieOps s6 = [ClearCookie] \<and> TestURLs s6 = urls \<and> OAuthClient_RedirectURL s6 = ru
     \<and> sessValues s6 = (fst (sessstore_Get env r (Session_Name cfg)))
          (''state'' := IString (fst (generateStateNonce env)), ''requestedURL'' := IString url)
     \<and> (case snd (generateStateNonce env) of None \<Rightarrow> True
         | Some e \<Rightarrow> LogError e \<in> set (logs s6))"
  using assms
  by (auto simp: LoginHandler_def Let_def log_Error_def log_Warn_def Values_set_def
      cookie_ClearCookie_def start_def split: option.splits)

lemma LoginHandler_result:
  assumes "Query_Get r ''url'' = url" and "url \<noteq> []"
    and "url \<noteq> ''state''" and "url \<noteq> ''requestedURL''"
    and "fst (sessstore_Get env r (Session_Name cfg)) url = INil \<and> n = 0
         \<or> fst (sessstore_Get env r (Session_Name cfg)) url = IInt n"
  shows "let res = LoginHandler env cfg r (start urls ru);
             st = fst (generateStateNonce env)
         in sessValues res = (fst (sessstore_Get env r (Session_Name cfg)))
              (''state'' := IString st, ''requestedURL'' := IString url, url := IInt (n + 1))
            \<and> saved res = (case session_Save env (sessValues res) of
                              None \<Rightarrow> Some (sessValues res) | Some err \<Rightarrow> None)
            \<and> cookieOps res = [ClearCookie]
            \<and> (case snd (generateStateNonce env) of None \<Rightarrow> True
                | Some e \<Rightarrow> LogError e \<in> set (logs res))
            \<and> (if n + 1 > 2 then
                  status res = Some 200 \<and> location res = None
                  \<and> body res = fst (indexTemplate_Execute env
                       \<lparr> Msg = ''/login too many redirects for '' @ url @ '' - ''
                               @ Query_Get r ''error'',
                         Index_TestURLs = urls, Index_Testing = Testing cfg \<rparr>)
                else if Testing cfg then
                  status res = Some 200 \<and> location res = None
                  \<and> body res = fst (indexTemplate_Execute env
                       \<lparr> Msg = ''302 redirect to: '' @ fst (loginURL env cfg r st (start [] ru)),
                         Index_TestURLs = urls @ [fst (loginURL env cfg r st (start [] ru))],
                         Index_Testing = True \<rparr>)
                else status res = Some 302 \<and> body res = []
                     \<and> location res = Some (fst (loginURL env cfg r st (start [] ru))))"
proof -
  obtain s6 where s6: "LoginHandler env cfg r (start urls ru)
               = loginCounted env cfg r (fst (generateStateNonce env)) url n s6"
     "status s6 = None" "body s6 = []" "location s6 = None" "saved s6 = None"
     "cookieOps s6 = [ClearCookie]" "TestURLs s6 = urls" "OAuthClient_RedirectURL s6 = ru"
     "sessValues s6 = (fst (sessstore_Get env r (Session_Name cfg)))
          (''state'' := IString (fst (generateStateNonce env)), ''requestedURL'' := IString url)"
     "case snd (generateStateNonce env) of None \<Rightarrow> True
         | Some e \<Rightarrow> LogError e \<in> set (logs s6)"
    using LoginHandler_counted [OF assms, of urls ru] by blast
  have l: "case snd (generateStateNonce env) of None \<Rightarrow> True
      | Some e \<Rightarrow> LogError e \<in> set (logs (loginCounted env cfg r (fst (generateStateNonce env)) url n s6))"
    using s6(10) by (auto split: option.splits intro: loginCounted_logs)
  show ?thesis
    using loginCounted_result [OF s6(2,3,4), of env cfg r "fst (generateStateNonce env)" url n] l
    by (simp add: s6 Let_def cong: option.case_cong)
qed

text \<open>A destination that is one of the session's own keys: the failure count read at
  line 378 is then the string just stored, and the type assertion panics.\<close>

lemma LoginHandler_reserved_key:
  assumes "Query_Get r ''url'' = ''state'' \<or> Query_Get r ''url'' = ''requestedURL''"
  shows "panicked (LoginHandler env cfg r (start urls ru))
       \<and> finalStatus (LoginHandler env cfg r (start urls ru)) = None"
  using assms
  by (auto simp: LoginHandler_def Let_def finalStatus_def log_Error_def log_Warn_def Values_set_def
      cookie_ClearCookie_def start_def split: option.splits)

text \<open>
  C7, on the code. When the random source fails, \<open>LoginHandler\<close> logs the error and
  goes on: the empty string is stored as the state and the browser is redirected to the
  provider with the empty state.
\<close>

theorem LoginHandler_nonce_failure:
  assumes "URLBase64InBytes env base64Bytes = Inl e"
    and "Query_Get r ''url'' = url" and "url \<noteq> []"
    and "url \<noteq> ''state''" and "url \<noteq> ''requestedURL''"
    and "fst (sessstore_Get env r (Session_Name cfg)) url = INil"
    and "\<not> Testing cfg"
  shows "let res = LoginHandler env cfg r (start urls ru) in
     LogError e \<in> set (logs res)
     \<and> sessValues res ''state'' = IString []
     \<and> status res = Some 302
     \<and> location res = Some (fst (loginURL env cfg r [] (start [] ru)))"
proof -
  have g: "generateStateNonce env = ([], Some e)"
    using assms(1) by (simp add: generateStateNonce_def)
  have c: "fst (sessstore_Get env r (Session_Name cfg)) url = INil \<and> (0::int) = 0
         \<or> fst (sessstore_Get env r (Session_Name cfg)) url = IInt 0"
    using assms(6) by simp
  show ?thesis
    using LoginHandler_result [OF assms(2-5) c, of urls ru] assms(4,5,7)
    by (simp add: g Let_def)
qed

theorem LoginHandler_nonce_failure_witness:
  "(let res = LoginHandler ((sampleEnv noSession)\<lparr>URLBase64InBytes := (\<lambda>n. Inl ''unexpected EOF'')\<rparr>)
                sampleCfg loginReq (start [] []) in
     LogError ''unexpected EOF'' \<in> set (logs res)
     \<and> sessValues res ''state'' = IString []
     \<and> status res = Some 302
     \<and> location res = Some ''https://adfs.example.com/adfs/oauth2/authorize/?state='')"
proof -
  let ?env = "(sampleEnv noSession)\<lparr>URLBase64InBytes := (\<lambda>n. Inl ''unexpected EOF'')\<rparr>"
  have a: "URLBase64InBytes ?env base64Bytes = Inl ''unexpected EOF''"
    "Query_Get loginReq ''url'' = ''https://app.example.com/''"
    "fst (sessstore_Get ?env loginReq (Session_Name sampleCfg)) ''https://app.example.com/'' = INil"
    "\<not> Testing sampleCfg"
    by (simp_all add: sampleEnv_def loginReq_def req_def noSession_def sampleCfg_def)
  have u: "fst (loginURL ?env sampleCfg loginReq [] (start [] []))
      = ''https://adfs.example.com/adfs/oauth2/authorize/?state=''"
    by (simp add: loginURL_def sampleEnv_def sampleCfg_def)
  show ?thesis
    using LoginHandler_nonce_failure [OF a(1,2) _ _ _ a(3,4), of "[]" "[]"]
    by (simp add: u Let_def)
qed

text \<open>
  C8, as the code has it. With testing mode off and a destination that is not one of
  the session's own keys \<^verbatim>\<open>state\<close> and \<^verbatim>\<open>requestedURL\<close>: of three logins for that
  destination, each carrying the session the one before saved and the first carrying no
  count (or 0) for it, the first two are answered 302 to the provider and leave the
  counts 1 and 2, and the third renders the too-many-redirects page and redirects
  nowhere.
\<close>

theorem LoginHandler_third_attempt:
  assumes "Query_Get r1 ''url'' = url" and "Query_Get r2 ''url'' = url"
    and "Query_Get r3 ''url'' = url"
    and "url \<noteq> []" and "url \<noteq> ''state''" and "url \<noteq> ''requestedURL''"
    and "\<not> Testing cfg"
    and "fst (sessstore_Get e1 r1 (Session_Name cfg)) url = INil
         \<or> fst (sessstore_Get e1 r1 (Session_Name cfg)) url = IInt 0"
    and "saved (LoginHandler e1 cfg r1 (start u1 ru1))
           = Some (fst (sessstore_Get e2 r2 (Session_Name cfg)))"
    and "saved (LoginHandler e2 cfg r2 (start u2 ru2))
           = Some (fst (sessstore_Get e3 r3 (Session_Name cfg)))"
  shows "let res1 = LoginHandler e1 cfg r1 (start u1 ru1);
             res2 = LoginHandler e2 cfg r2 (start u2 ru2);
             res3 = LoginHandler e3 cfg r3 (start u3 ru3)
         in status res1 = Some 302
            \<and> location res1 = Some (fst (loginURL e1 cfg r1 (fst (generateStateNonce e1)) (start [] ru1)))
            \<and> sessValues res1 url = IInt 1
            \<and> status res2 = Some 302
            \<and> location res2 = Some (fst (loginURL e2 cfg r2 (fst (generateStateNonce e2)) (start [] ru2)))
            \<and> sessValues res2 url = IInt 2
            \<and> status res3 = Some 200 \<and> location res3 = None
            \<and> body res3 = fst (indexTemplate_Execute e3
                 \<lparr> Msg = ''/login too many redirects for '' @ url @ '' - '' @ Query_Get r3 ''error'',
                   Index_TestURLs = u3, Index_Testing = Testing cfg \<rparr>)
            \<and> sessValues res3 url = IInt 3"
proof -
  have c1: "fst (sessstore_Get e1 r1 (Session_Name cfg)) url = INil \<and> (0::int) = 0
         \<or> fst (sessstore_Get e1 r1 (Session_Name cfg)) url = IInt 0"
    using assms(8) by simp
  note r1 = LoginHandler_result [OF assms(1,4,5,6) c1, of u1 ru1, unfolded Let_def]
  have v1: "sessValues (LoginHandler e1 cfg r1 (start u1 ru1)) url = IInt 1"
    using r1 by simp
  have "saved (LoginHandler e1 cfg r1 (start u1 ru1))
      = Some (sessValues (LoginHandler e1 cfg r1 (start u1 ru1)))"
    using r1 assms(9) by (auto split: option.splits)
  with assms(9) v1 have "fst (sessstore_Get e2 r2 (Session_Name cfg)) url = IInt 1"
    by simp
  then have c2: "fst (sessstore_Get e2 r2 (Session_Name cfg)) url = INil \<and> (1::int) = 0
         \<or> fst (sessstore_Get e2 r2 (Session_Name cfg)) url = IInt 1"
    by simp
  note r2 = LoginHandler_result [OF assms(2,4,5,6) c2, of u2 ru2, unfolded Let_def]
  have v2: "sessValues (LoginHandler e2 cfg r2 (start u2 ru2)) url = IInt 2"
    using r2 by simp
  have "saved (LoginHandler e2 cfg r2 (start u2 ru2))
      = Some (sessValues (LoginHandler e2 cfg r2 (start u2 ru2)))"
    using r2 assms(10) by (auto split: option.splits)
  with assms(10) v2 have "fst (sessstore_Get e3 r3 (Session_Name cfg)) url = IInt 2"
    by simp
  then have c3: "fst (sessstore_Get e3 r3 (Session_Name cfg)) url = INil \<and> (2::int) = 0
         \<or> fst (sessstore_Get e3 r3 (Session_Name cfg)) url = IInt 2"
    by simp
  note r3 = LoginHandler_result [OF assms(3,4,5,6) c3, of u3 ru3, unfolded Let_def]
  have v3: "sessValues (LoginHandler e3 cfg r3 (start u3 ru3)) url = IInt 3"
    using r3 by simp
  show ?thesis
    using r1 r2 r3 v1 v2 v3 assms(7) by (simp add: Let_def)
qed

lemma sample_nonce:
  "generateStateNonce (sampleEnv st) = (''abcDEF123'', None)"
  by (simp add: generateStateNonce_def sampleEnv_def isAlphaNum_def)

lemma sample_login_saved:
  assumes "st ''https://app.example.com/'' = INil \<and> n = 0 \<or> st ''https://app.example.com/'' = IInt n"
  shows "saved (LoginHandler (sampleEnv st) sampleCfg loginReq (start [] []))
     = Some (st(''state'' := IString ''abcDEF123'',
                ''requestedURL'' := IString ''https://app.example.com/'',
                ''https://app.example.com/'' := IInt (n + 1)))"
proof -
  have q: "Query_Get loginReq ''url'' = ''https://app.example.com/''"
    by (simp add: loginReq_def req_def)
  have g: "fst (sessstore_Get (sampleEnv st) loginReq (Session_Name sampleCfg)) = st"
    "session_Save (sampleEnv st) = (\<lambda>v. None)"
    by (simp_all add: sampleEnv_def)
  have c: "fst (sessstore_Get (sampleEnv st) loginReq (Session_Name sampleCfg)) ''https://app.example.com/'' = INil \<and> n = 0
      \<or> fst (sessstore_Get (sampleEnv st) loginReq (Session_Name sampleCfg)) ''https://app.example.com/'' = IInt n"
    using assms by (simp add: g)
  show ?thesis
    using LoginHandler_result [OF q _ _ _ c, of "[]" "[]"]
    by (simp add: Let_def g sample_nonce)
qed

theorem LoginHandler_third_attempt_witness:
  "(let res1 = LoginHandler (sampleEnv noSession) sampleCfg loginReq (start [] []);
        res2 = LoginHandler (sampleEnv loginSession) sampleCfg loginReq (start [] []);
        res3 = LoginHandler (sampleEnv loginSession2) sampleCfg loginReq (start [] [])
    in status res1 = Some 302 \<and> status res2 = Some 302
       \<and> status res3 = Some 200 \<and> location res3 = None
       \<and> body res3 = ''<p>/login too many redirects for https://app.example.com/ - </p>'')"
proof -
  have q: "Query_Get loginReq ''url'' = ''https://app.example.com/''"
    "Query_Get loginReq ''error'' = []"
    by (simp_all add: loginReq_def req_def)
  have t: "\<not> Testing sampleCfg" by (simp add: sampleCfg_def)
  have g: "\<And>st. fst (sessstore_Get (sampleEnv st) loginReq (Session_Name sampleCfg)) = st"
    by (simp add: sampleEnv_def)
  have i: "\<And>ix. indexTemplate_Execute (sampleEnv loginSession2) ix = (''<p>'' @ Msg ix @ ''</p>'', None)"
    by (simp add: sampleEnv_def)
  have 0: "fst (sessstore_Get (sampleEnv noSession) loginReq (Session_Name sampleCfg)) ''https://app.example.com/'' = INil
      \<or> fst (sessstore_Get (sampleEnv noSession) loginReq (Session_Name sampleCfg)) ''https://app.example.com/'' = IInt 0"
    by (simp add: g noSession_def)
  have 1: "saved (LoginHandler (sampleEnv noSession) sampleCfg loginReq (start [] []))
      = Some (fst (sessstore_Get (sampleEnv loginSession) loginReq (Session_Name sampleCfg)))"
    using sample_login_saved [of noSession 0]
    by (simp add: g loginSession_def noSession_def)
  have 2: "saved (LoginHandler (sampleEnv loginSession) sampleCfg loginReq (start [] []))
      = Some (fst (sessstore_Get (sampleEnv loginSession2) loginReq (Session_Name sampleCfg)))"
    using sample_login_saved [of loginSession 1]
    by (auto simp: g loginSession2_def loginSession_def fun_eq_iff)
  show ?thesis
    using LoginHandler_third_attempt [OF q(1) q(1) q(1) _ _ _ t 0 1 2, of "[]" "[]"]
    by (simp add: Let_def q i)
qed


text \<open>
  C8 as stated fails in testing mode: the first login is answered with a page that names
  the redirect, status 200, and no redirect.
\<close>

theorem LoginHandler_testing_counterexample:
  "(let res = LoginHandler (sampleEnv noSession) (sampleCfg\<lparr>Testing := True\<rparr>) loginReq (start [] []) in
     status res = Some 200 \<and> location res = None
     \<and> body res = ''<p>302 redirect to: https://adfs.example.com/adfs/oauth2/authorize/?state=abcDEF123</p>'')"
proof -
  let ?cfg = "sampleCfg\<lparr>Testing := True\<rparr>"
  have q: "Query_Get loginReq ''url'' = ''https://app.example.com/''"
    by (simp add: loginReq_def req_def)
  have c: "fst (sessstore_Get (sampleEnv noSession) loginReq (Session_Name ?cfg))
             ''https://app.example.com/'' = INil \<and> (0::int) = 0
      \<or> fst (sessstore_Get (sampleEnv noSession) loginReq (Session_Name ?cfg))
             ''https://app.example.com/'' = IInt 0"
    by (simp add: sampleEnv_def noSession_def)
  have u: "fst (loginURL (sampleEnv noSession) ?cfg loginReq ''abcDEF123'' (start [] []))
      = ''https://adfs.example.com/adfs/oauth2/authorize/?state=abcDEF123''"
    by (simp add: loginURL_def sampleEnv_def sampleCfg_def)
  have i: "\<And>ix. indexTemplate_Execute (sampleEnv noSession) ix = (''<p>'' @ Msg ix @ ''</p>'', None)"
    by (simp add: sampleEnv_def)
  have t: "Testing ?cfg" by simp
  show ?thesis
    using LoginHandler_result [OF q _ _ _ c, of "[]" "[]"]
    by (simp add: Let_def sample_nonce u i t)
qed

end
